theory Spec2Isabelle
  imports Complex_Main "HOL-Library.Sublist"
begin

section \<open>JavaScript values used by the prompt pipeline\<close>

text \<open>
  Strings are \<^typ>\<open>string\<close>: sequences of code units below 256 (text with code units
  beyond that range is outside the model). An optional field (\<open>field?: string\<close>) is a
  \<^typ>\<open>string option\<close>, \<open>None\<close> standing for \<open>undefined\<close>. A string is truthy when it
  is present and not empty. JavaScript numbers are integers here (\<^typ>\<open>int\<close>); their
  decimal rendering in a template literal is exact below \<open>2^53\<close>, which is where the
  source's counts and indices live.
\<close>

definition truthy :: "string option \<Rightarrow> bool" where
  "truthy s = (case s of None \<Rightarrow> False | Some v \<Rightarrow> v \<noteq> [])"

text \<open>\<open>a || b\<close> where \<open>a\<close> is an optional string and \<open>b\<close> a string.\<close>

definition orElse :: "string option \<Rightarrow> string \<Rightarrow> string" where
  "orElse s d = (case s of None \<Rightarrow> d | Some v \<Rightarrow> (if v = [] then d else v))"

text \<open>\<open>Array.prototype.join\<close> on an array of strings.\<close>

fun join :: "string \<Rightarrow> string list \<Rightarrow> string" where
  "join sep [] = []"
| "join sep [x] = x"
| "join sep (x # y # ys) = x @ sep @ join sep (y # ys)"

text \<open>\<open>s.replace(c, '')\<close> with a one-character string pattern: the first occurrence goes.\<close>

fun replaceFirst :: "char \<Rightarrow> string \<Rightarrow> string" where
  "replaceFirst c [] = []"
| "replaceFirst c (x # xs) = (if x = c then xs else x # replaceFirst c xs)"

definition digitChar :: "nat \<Rightarrow> char" where
  "digitChar d = ''0123456789'' ! d"

fun digitsOf :: "nat \<Rightarrow> string" where
  "digitsOf n = (if n < 10 then [digitChar n] else digitsOf (n div 10) @ [digitChar (n mod 10)])"

declare digitsOf.simps [simp del]

text \<open>The text a template literal gives for a number; \<open>None\<close> is \<open>NaN\<close>.\<close>

definition numberText :: "int \<Rightarrow> string" where
  "numberText i = (if i < 0 then ''-'' @ digitsOf (nat (- i)) else digitsOf (nat i))"

definition nanOrNumberText :: "int option \<Rightarrow> string" where
  "nanOrNumberText v = (case v of None \<Rightarrow> ''NaN'' | Some i \<Rightarrow> numberText i)"

definition isWhiteSpace :: "char \<Rightarrow> bool" where
  "isWhiteSpace c = (c \<in> set [CHR 0x09, CHR 0x0A, CHR 0x0B, CHR 0x0C, CHR 0x0D, CHR 0x20, CHR 0xA0])"

text \<open>\<open>String.prototype.trim\<close>.\<close>

definition trim :: "string \<Rightarrow> string" where
  "trim s = rev (dropWhile isWhiteSpace (rev (dropWhile isWhiteSpace s)))"

definition digitValue :: "char \<Rightarrow> nat option" where
  "digitValue c = map_of
     [(CHR ''0'', 0), (CHR ''1'', 1), (CHR ''2'', 2), (CHR ''3'', 3), (CHR ''4'', 4),
      (CHR ''5'', 5), (CHR ''6'', 6), (CHR ''7'', 7), (CHR ''8'', 8), (CHR ''9'', 9),
      (CHR ''a'', 10), (CHR ''b'', 11), (CHR ''c'', 12), (CHR ''d'', 13), (CHR ''e'', 14),
      (CHR ''f'', 15), (CHR ''A'', 10), (CHR ''B'', 11), (CHR ''C'', 12), (CHR ''D'', 13),
      (CHR ''E'', 14), (CHR ''F'', 15)] c"

definition isDigitIn :: "nat \<Rightarrow> char \<Rightarrow> bool" where
  "isDigitIn radix c = (case digitValue c of None \<Rightarrow> False | Some d \<Rightarrow> d < radix)"

definition digitsValue :: "nat \<Rightarrow> string \<Rightarrow> nat" where
  "digitsValue radix ds = foldl (\<lambda>acc c. acc * radix + the (digitValue c)) 0 ds"

text \<open>
  \<open>parseInt(s)\<close> with no radix: leading white space is skipped, a sign is read, a
  \<open>0x\<close>/\<open>0X\<close> prefix selects radix 16, and the longest run of digits is the value;
  no digit at all gives \<open>NaN\<close>.
\<close>

definition parseInt :: "string \<Rightarrow> int option" where
  "parseInt s =
     (let t = dropWhile isWhiteSpace s;
          negative = (t \<noteq> [] \<and> hd t = CHR ''-'');
          u = (if t \<noteq> [] \<and> (hd t = CHR ''-'' \<or> hd t = CHR ''+'') then tl t else t);
          hex = (prefix ''0x'' u \<or> prefix ''0X'' u);
          radix = (if hex then 16 else 10);
          v = (if hex then drop 2 u else u);
          ds = takeWhile (isDigitIn radix) v
      in if ds = [] then None
         else Some (if negative then - int (digitsValue radix ds) else int (digitsValue radix ds)))"

subsection \<open>Property lookup on a plain object\<close>

text \<open>
  The lookup tables of the source (records built by \<open>reduce\<close> on \<open>{}\<close>, and object
  literals) are plain objects, so \<open>table[key]\<close> finds an own property, or else a member
  of \<open>Object.prototype\<close>, or else \<open>undefined\<close>. An inherited member is truthy; in a
  template literal it renders as Node prints it, and any property read from it that the
  source asks for (\<open>.prompt\<close>) is \<open>undefined\<close>.
\<close>

datatype 'a property = Own 'a | Inherited string | Undefined

definition objectPrototypeKeys :: "string list" where
  "objectPrototypeKeys =
     [''constructor'', ''__defineGetter__'', ''__defineSetter__'', ''hasOwnProperty'',
      ''__lookupGetter__'', ''__lookupSetter__'', ''isPrototypeOf'', ''propertyIsEnumerable'',
      ''toString'', ''valueOf'', ''__proto__'', ''toLocaleString'']"

definition getProperty :: "(string \<rightharpoonup> 'a) \<Rightarrow> string \<Rightarrow> 'a property" where
  "getProperty obj k =
     (case obj k of
        Some v \<Rightarrow> Own v
      | None \<Rightarrow> (if k \<in> set objectPrototypeKeys then Inherited k else Undefined))"

definition inheritedText :: "string \<Rightarrow> string" where
  "inheritedText k =
     (if k = ''__proto__'' then ''[object Object]''
      else if k = ''constructor'' then ''function Object() { [native code] }''
      else ''function '' @ k @ ''() { [native code] }'')"

fun propertyText :: "string property \<Rightarrow> string" where
  "propertyText (Own v) = v"
| "propertyText (Inherited k) = inheritedText k"
| "propertyText Undefined = ''undefined''"

section \<open>Preset catalogs\<close>

text \<open>
  \<open>CREATIVE_TREND_PRESETS\<close> and \<open>VIDEO_CREATIVE_TREND_PRESETS\<close> are built from two JSON
  files that are data of the deployment; a catalog is therefore a parameter of the prompt
  builders: the own properties of the lookup object, from preset id to name and prompt.
  (A data file with a preset of id \<open>__proto__\<close> would replace the prototype of the lookup
  object instead of adding an own property; catalogs have no such id here.)
\<close>

record preset =
  preset_name :: string
  preset_prompt :: string

type_synonym catalog = "string \<rightharpoonup> preset"

datatype trendKind = Preset | AiGenerated | Skip

record creativeTrend =
  trend_type :: trendKind
  presetId :: "string option"
  customPrompt :: "string option"

text \<open>
  The creative-trend step, which both builders have in the same words, each against its
  own catalog: the section pushed by the
  \<open>if (type === "preset" && presetId) ... else if (type === "ai-generated" && customPrompt)\<close>
  chain, as the list of sections it adds (none or one). The template literal
  \<open>`CREATIVE TREND:\n${...}`\<close> is \<open>creativeTrendText\<close>; for an inherited member,
  \<open>preset.prompt\<close> is \<open>undefined\<close>.
\<close>

definition creativeTrendText :: "string \<Rightarrow> string" where
  "creativeTrendText body = ''CREATIVE TREND:\<newline>'' @ body"

definition creativeTrendSections :: "catalog \<Rightarrow> creativeTrend option \<Rightarrow> string list" where
  "creativeTrendSections presets ct =
     (case ct of
        None \<Rightarrow> []
      | Some t \<Rightarrow>
          (if trend_type t = Preset \<and> truthy (presetId t) then
             (case getProperty presets (the (presetId t)) of
                Own p \<Rightarrow> [creativeTrendText (preset_prompt p)]
              | Inherited k \<Rightarrow> [creativeTrendText ''undefined'']
              | Undefined \<Rightarrow> [])
           else if trend_type t = AiGenerated \<and> truthy (customPrompt t) then
             [creativeTrendText (the (customPrompt t))]
           else []))"

definition separator :: string where
  "separator = ''\<newline>\<newline>---\<newline>\<newline>''"

section \<open>The image prompt assembler\<close>

record variationSpecsOpt =
  vs_lighting :: "string option"
  vs_environment :: "string option"
  vs_cameraAngle :: "string option"
  vs_materials :: "string option"

record StructuredPromptParams =
  sp_referenceImageInteraction :: "string option"
  sp_referenceImageCount :: int
  sp_creativeTrend :: "creativeTrend option"
  sp_brandGuidelines :: string
  sp_primaryColor :: string
  sp_secondaryColor :: string
  sp_moodboardImageCount :: int
  sp_moodboardStartIndex :: int
  sp_aspectRatio :: string
  sp_variantNumber :: "int option"
  sp_variationSpecs :: "variationSpecsOpt option"

text \<open>
  \<open>buildStructuredPrompt\<close> pushes sections onto an array and joins them. Each
  \<open>sections.push\<close> of the source is one definition below; an optional step is the list of
  the sections it pushes (none or one).
\<close>

definition interactionText :: "StructuredPromptParams \<Rightarrow> string" where
  "interactionText params =
     ''REFERENCE IMAGES INTERACTION:\<newline>'' @
     the (sp_referenceImageInteraction params) @
     ''\<newline>'' @
     ''\<newline>'' @
     ''Composition Requirements:\<newline>'' @
     ''- Ensure seamless integration between referenced elements\<newline>'' @
     ''- Match lighting, perspective, and scale across combined elements\<newline>'' @
     ''- Blend edges naturally to avoid obvious compositing\<newline>'' @
     ''- Maintain consistent depth of field and atmospheric perspective\<newline>'' @
     ''- Preserve the quality and detail of key elements from each referenced image''"

definition interactionSections :: "StructuredPromptParams \<Rightarrow> string list" where
  "interactionSections params =
     (if truthy (sp_referenceImageInteraction params) \<and> sp_referenceImageCount params > 1
      then [interactionText params] else [])"

definition brandSection :: "StructuredPromptParams \<Rightarrow> string" where
  "brandSection params =
     ''BRAND GUIDELINES:\<newline>'' @
     orElse (Some (sp_brandGuidelines params))
       (''Maintain professional, modern brand aesthetic with clean compositions and '' @
        ''premium quality.'')"

definition colorSection :: "StructuredPromptParams \<Rightarrow> string" where
  "colorSection params =
     ''COLOR PALETTE:\<newline>'' @
     ''Primary Color: '' @
     sp_primaryColor params @
     ''\<newline>'' @
     ''Secondary Color: '' @
     sp_secondaryColor params @
     ''\<newline>'' @
     ''\<newline>'' @
     ''Use these colors as the dominant color scheme throughout the composition. The '' @
     ''primary color should be the most prominent, with secondary color as supporting '' @
     ''accent.''"

text \<open>\<open>Array.from({ length: n }, (_, i) => ...)\<close> has no element when \<open>n\<close> is not positive.\<close>

definition moodboardRefs :: "StructuredPromptParams \<Rightarrow> string" where
  "moodboardRefs params =
     join '', ''
       (map (\<lambda>i. ''[image '' @ numberText (sp_moodboardStartIndex params + int i + 1) @ '']'')
          [0 ..< nat (sp_moodboardImageCount params)])"

definition moodboardText :: "StructuredPromptParams \<Rightarrow> string" where
  "moodboardText params =
     ''LOOK & FEEL REFERENCE (MOODBOARD):\<newline>'' @
     ''Draw inspiration from the visual style shown in '' @
     moodboardRefs params @
     ''. These images establish the desired mood, lighting quality, composition '' @
     ''approach, and aesthetic treatment. Emulate the color grading, atmospheric '' @
     ''qualities, texturing methods, and overall visual language present in these '' @
     ''references while adapting them to the creative concept.''"

definition moodboardSections :: "StructuredPromptParams \<Rightarrow> string list" where
  "moodboardSections params =
     (if sp_moodboardImageCount params > 0 then [moodboardText params] else [])"

definition imageAspectGuidance :: "string \<rightharpoonup> string" where
  "imageAspectGuidance = map_of
     [(''9:16'', ''Optimize for vertical mobile viewing with focal point in upper-middle third''),
      (''1:1'', ''Balanced, centered composition suitable for Instagram feed''),
      (''4:5'', ''Slightly vertical composition with breathing room at top and bottom''),
      (''16:9'', ''Cinematic wide composition with horizontal emphasis'')]"

text \<open>\<open>aspectGuidance[params.aspectRatio] || ""\<close>.\<close>

definition imageAspectText :: "StructuredPromptParams \<Rightarrow> string" where
  "imageAspectText params =
     (case getProperty imageAspectGuidance (sp_aspectRatio params) of
        Undefined \<Rightarrow> []
      | found \<Rightarrow> propertyText found)"

definition imageSpecSection :: "StructuredPromptParams \<Rightarrow> string" where
  "imageSpecSection params =
     ''IMAGE SPECIFICATIONS:\<newline>'' @
     ''Generate image in '' @
     sp_aspectRatio params @
     '' aspect ratio.\<newline>'' @
     imageAspectText params"

definition variationParts :: "variationSpecsOpt \<Rightarrow> string list" where
  "variationParts vs =
     (if truthy (vs_lighting vs) then [''Lighting: '' @ the (vs_lighting vs)] else []) @
     (if truthy (vs_environment vs) then [''Environment: '' @ the (vs_environment vs)] else []) @
     (if truthy (vs_cameraAngle vs) then [''Camera Angle: '' @ the (vs_cameraAngle vs)] else []) @
     (if truthy (vs_materials vs) then [''Materials: '' @ the (vs_materials vs)] else [])"

definition variationText :: "int \<Rightarrow> variationSpecsOpt \<Rightarrow> string" where
  "variationText n vs =
     ''VARIATION SPECIFICATIONS FOR VARIANT #'' @
     numberText n @
     '':\<newline>'' @
     ''\<newline>'' @
     join ''\<newline>\<newline>'' (variationParts vs)"

definition variationSections :: "StructuredPromptParams \<Rightarrow> string list" where
  "variationSections params =
     (case sp_variantNumber params of
        None \<Rightarrow> []
      | Some n \<Rightarrow>
          (if n \<noteq> 0 \<and> n > 1 then
             (case sp_variationSpecs params of
                None \<Rightarrow> []
              | Some vs \<Rightarrow>
                  (if length (variationParts vs) > 0 then [variationText n vs] else []))
           else []))"

definition structuredSections :: "catalog \<Rightarrow> StructuredPromptParams \<Rightarrow> string list" where
  "structuredSections presets params =
     interactionSections params @
     creativeTrendSections presets (sp_creativeTrend params) @
     [brandSection params, colorSection params] @
     moodboardSections params @
     [imageSpecSection params] @
     variationSections params"

definition buildStructuredPrompt :: "catalog \<Rightarrow> StructuredPromptParams \<Rightarrow> string" where
  "buildStructuredPrompt presets params = join separator (structuredSections presets params)"

section \<open>The video prompt assembler\<close>

record VideoReferenceImage =
  vr_index :: int
  vr_purpose :: string
  vr_customDescription :: "string option"

record VideoPromptParams =
  vp_referenceImages :: "VideoReferenceImage list"
  vp_creativeTrend :: "creativeTrend option"
  vp_brandGuidelines :: string
  vp_primaryColor :: string
  vp_secondaryColor :: string
  vp_narrative :: string
  vp_narrativeTemplate :: "string option"
  vp_aspectRatio :: string
  vp_duration :: string

definition hasReferenceImages :: "VideoPromptParams \<Rightarrow> bool" where
  "hasReferenceImages params = (length (vp_referenceImages params) > 0)"

definition effectiveDuration :: "VideoPromptParams \<Rightarrow> string" where
  "effectiveDuration params = (if hasReferenceImages params then ''8s'' else vp_duration params)"

definition purposeLabels :: "VideoReferenceImage \<Rightarrow> (string \<rightharpoonup> string)" where
  "purposeLabels img = map_of
     [(''character'', ''Main influencer/character''),
      (''product'', ''Product to be featured''),
      (''environment'', ''Brand environment/location''),
      (''keyframe'', ''Key visual moment''),
      (''style-guide'', ''Visual style reference''),
      (''custom'', orElse (vr_customDescription img) ''Custom reference'')]"

definition imageDescriptions :: "VideoPromptParams \<Rightarrow> string" where
  "imageDescriptions params =
     join ''\<newline>''
       (map (\<lambda>img. ''[image '' @
                   numberText (vr_index img) @
                   ''] - '' @
                   propertyText (getProperty (purposeLabels img) (vr_purpose img)))
          (vp_referenceImages params))"

definition referenceText :: "VideoPromptParams \<Rightarrow> string" where
  "referenceText params =
     ''REFERENCE IMAGES:\<newline>'' @
     imageDescriptions params @
     ''\<newline>'' @
     ''\<newline>'' @
     ''These images serve as visual anchors for character consistency, environment '' @
     ''design, and key visual moments throughout the 8-second video sequence.\<newline>'' @
     ''\<newline>'' @
     ''NOTE: Due to reference image constraints, this video is optimized for 8-second '' @
     ''duration with focused, impactful storytelling.''"

definition referenceSections :: "VideoPromptParams \<Rightarrow> string list" where
  "referenceSections params = (if hasReferenceImages params then [referenceText params] else [])"

definition brandGuidelinesContent :: "VideoPromptParams \<Rightarrow> string" where
  "brandGuidelinesContent params =
     orElse (Some (vp_brandGuidelines params))
       (''Maintain professional, modern brand aesthetic with clean compositions and '' @
        ''premium quality.\<newline>'' @
        ''\<newline>'' @
        ''DO:\<newline>'' @
        ''- Maintain consistent brand presence throughout '' @
        effectiveDuration params @
        '' video\<newline>'' @
        ''- Use smooth, professional camera movements\<newline>'' @
        ''- Ensure clear product/brand visibility in key frames\<newline>'' @
        ''- Keep pacing energetic and focused (no wasted frames)\<newline>'' @
        ''\<newline>'' @
        ''DON'T:\<newline>'' @
        ''- Attempt complex multi-scene narratives (time too limited)\<newline>'' @
        ''- Use slow, lingering shots (must maximize '' @
        effectiveDuration params @
        '')\<newline>'' @
        ''- Obscure brand elements with effects or transitions'')"

definition videoBrandSection :: "VideoPromptParams \<Rightarrow> string" where
  "videoBrandSection params = ''BRAND GUIDELINES:\<newline>'' @ brandGuidelinesContent params"

definition videoColorSection :: "VideoPromptParams \<Rightarrow> string" where
  "videoColorSection params =
     ''COLOR PALETTE:\<newline>'' @
     ''Primary Color: '' @
     vp_primaryColor params @
     ''\<newline>'' @
     ''Secondary Color: '' @
     vp_secondaryColor params @
     ''\<newline>'' @
     ''\<newline>'' @
     ''Apply these colors consistently throughout the entire '' @
     effectiveDuration params @
     '' video sequence. The primary color should dominate the color scheme across all '' @
     ''frames, with the secondary color as a supporting accent.\<newline>'' @
     ''\<newline>'' @
     ''Color Application ('' @
     effectiveDuration params @
     '' format):\<newline>'' @
     ''- Establish color palette immediately in opening frame\<newline>'' @
     ''- Maintain consistent color grading across all '' @
     replaceFirst (CHR ''s'') (effectiveDuration params) @
     '' seconds\<newline>'' @
     ''- Use primary color in lighting design where appropriate\<newline>'' @
     ''- Apply color palette to animated elements and motion graphics''"

definition durationSeconds :: "VideoPromptParams \<Rightarrow> int option" where
  "durationSeconds params = parseInt (replaceFirst (CHR ''s'') (effectiveDuration params))"

definition narrativeGuidance :: "VideoPromptParams \<Rightarrow> string" where
  "narrativeGuidance params =
     (if hasReferenceImages params then
        ''\<newline>'' @
        ''\<newline>'' @
        ''Structure the narrative to include (within 8 seconds):\<newline>'' @
        ''- Opening hook (0-2 seconds) - Immediate visual interest\<newline>'' @
        ''- Core moment/action (2-6 seconds) - Main content or transformation\<newline>'' @
        ''- Payoff/conclusion (6-8 seconds) - Resolution or call-to-action\<newline>'' @
        ''\<newline>'' @
        ''Keep scenes minimal, transitions quick or nonexistent, and focus on single '' @
        ''impactful moment.''
      else [])"

definition narrativeSection :: "VideoPromptParams \<Rightarrow> string" where
  "narrativeSection params =
     ''NARRATIVE / STORYLINE:\<newline>'' @
     vp_narrative params @
     narrativeGuidance params"

definition videoAspectGuidance :: "VideoPromptParams \<Rightarrow> (string \<rightharpoonup> string)" where
  "videoAspectGuidance params = map_of
     [(''9:16'',
       ''9:16 (Vertical/TikTok, Reels, Shorts): Optimize for vertical mobile viewing '' @
       ''with key action in center-upper frame. Subject should fill frame appropriately. '' @
       ''Ideal for portrait-oriented content and full-screen mobile engagement. '' @
       nanOrNumberText (durationSeconds params) @
       ''-second format perfect for snackable TikTok content.''),
      (''1:1'',
       ''1:1 (Square/Instagram Feed): Balanced, centered composition. Works well for '' @
       ''product showcases and symmetrical framing. Ensure important elements stay '' @
       ''within safe zone. '' @
       nanOrNumberText (durationSeconds params) @
       ''-second duration ideal for looping Instagram feed content.''),
      (''16:9'',
       ''16:9 (Landscape/YouTube, Horizontal): Cinematic widescreen composition. Utilize '' @
       ''horizontal space efficiently within '' @
       nanOrNumberText (durationSeconds params) @
       ''-second timeframe. Use rule of thirds for subject placement. Ideal for YouTube '' @
       ''Shorts introductory clips.'')]"

text \<open>\<open>aspectGuidance[params.aspectRatio] || aspectGuidance["9:16"]\<close>.\<close>

definition videoAspectText :: "VideoPromptParams \<Rightarrow> string" where
  "videoAspectText params =
     (case getProperty (videoAspectGuidance params) (vp_aspectRatio params) of
        Undefined \<Rightarrow> propertyText (getProperty (videoAspectGuidance params) ''9:16'')
      | found \<Rightarrow> propertyText found)"

definition durationNote :: "VideoPromptParams \<Rightarrow> string" where
  "durationNote params =
     (if hasReferenceImages params then
        ''Duration: 8 seconds (reference image constraint with Google Veo 3.1)''
      else ''Duration: '' @ effectiveDuration params)"

definition videoSpecSection :: "VideoPromptParams \<Rightarrow> string" where
  "videoSpecSection params =
     ''VIDEO SPECIFICATIONS:\<newline>'' @
     ''Generate video in '' @
     vp_aspectRatio params @
     '' aspect ratio.\<newline>'' @
     durationNote params @
     ''\<newline>'' @
     ''\<newline>'' @
     videoAspectText params @
     ''\<newline>'' @
     ''\<newline>'' @
     ''Framing Guidelines:\<newline>'' @
     ''- Establish framing immediately in first frame (no time for slow reveals)\<newline>'' @
     ''- Maintain consistent framing throughout camera movements\<newline>'' @
     ''- Ensure subject/product remains properly framed during motion\<newline>'' @
     ''- Account for platform-specific safe zones\<newline>'' @
     ''- Design for potential looping ('' @
     nanOrNumberText (durationSeconds params) @
     ''-second videos often auto-loop on platforms)''"

definition videoSections :: "catalog \<Rightarrow> VideoPromptParams \<Rightarrow> string list" where
  "videoSections presets params =
     referenceSections params @
     creativeTrendSections presets (vp_creativeTrend params) @
     [videoBrandSection params, videoColorSection params, narrativeSection params,
      videoSpecSection params]"

definition buildVideoStructuredPrompt :: "catalog \<Rightarrow> VideoPromptParams \<Rightarrow> string" where
  "buildVideoStructuredPrompt presets params = join separator (videoSections presets params)"

section \<open>The outside world\<close>

text \<open>
  Everything the pipeline awaits is outside the repository: the environment variables, the
  vendor's text, image and video endpoints, the clock and random source behind file names,
  and the built-ins \<open>JSON.parse\<close> and \<open>Buffer.toString("base64")\<close>. They are the fields
  of one record, so that a run of the code is a function of the world and the request. A
  call that can throw returns \<open>Inl message\<close> for the throw and \<open>Inr value\<close> otherwise;
  this is also how the repository's own throwing functions are written below.
\<close>

datatype json =
    JNull
  | JBool bool
  | JNum string
  | JStr string
  | JArr "json list"
  | JObj "(string \<times> json) list"

text \<open>
  \<open>JNum\<close> carries the text JavaScript prints for the number (\<open>String(n)\<close>), which is
  all the code can observe of it. \<open>JObj\<close> lists the members in source order; a later
  duplicate key wins.
\<close>

type_synonym buffer = "nat list"

record contentRequest =
  cr_model :: string
  cr_systemInstruction :: string
  cr_userText :: string
  cr_maxOutputTokens :: nat

datatype requestPart = InlineData string string | TextPart string

record imageRequest =
  ir_model :: string
  ir_parts :: "requestPart list"

record responsePart =
  rp_inlineData :: "(string option \<times> string option) option"
  rp_text :: "string option"

record vendorImage =
  imageBytes :: string
  mimeType :: string

record videoRequest =
  vq_model :: string
  vq_prompt :: string
  vq_image :: "vendorImage option"
  vq_aspectRatio :: string

record GenerationConfig =
  cfg_protocolType :: "string option"
  cfg_trendType :: "string option"
  cfg_brandGuidelines :: "string option"
  cfg_primaryColor :: "string option"
  cfg_secondaryColor :: "string option"
  cfg_aspectRatio :: "string option"
  cfg_variantCount :: "int option"
  cfg_varianceFactors :: "string list option"
  cfg_useAIStoryline :: bool
  cfg_narrative :: "string option"
  cfg_videoLength :: "string option"
  cfg_useImageInteraction :: bool
  cfg_imageInteractionDescription :: "string option"
  cfg_creativeTrendType :: "string option"
  cfg_selectedPreset :: "string option"
  cfg_aiTrendDescription :: "string option"
  cfg_imagePurposes :: "string list option"
  cfg_customPurposeDescriptions :: "string list option"
  cfg_narrativeTemplate :: "string option"
  cfg_videoCreativeTrendType :: "string option"
  cfg_selectedVideoPreset :: "string option"
  cfg_aiVideoTrendDescription :: "string option"

record world =
  GEMINI_API_KEY :: "string option"
  GOOGLE_API_KEY :: "string option"
  IMAGE_MODEL_ID :: "string option"
  VIDEO_MODEL_ID :: "string option"
  imagePresets :: catalog
  videoPresets :: catalog
  generateContent :: "contentRequest \<Rightarrow> string + string option"
  JSON_parse :: "string \<Rightarrow> json option"
  parseConfig :: "string \<Rightarrow> string + GenerationConfig option"
  toBase64 :: "buffer \<Rightarrow> string"
  imageBackend :: "nat \<Rightarrow> imageRequest \<Rightarrow> string + responsePart list option"
  videoBackend :: "videoRequest \<Rightarrow> string + string"
  fileStamp :: "nat \<Rightarrow> string"

text \<open>
  \<^item> \<open>generateContent\<close>: the vendor's text endpoint; \<open>Inr t\<close> is a response whose
    \<open>text\<close> is \<open>t\<close>. The sampling settings of each call site are constants and are left
    out of the request.
  \<^item> \<open>JSON_parse\<close>: \<open>None\<close> is a \<open>SyntaxError\<close>.
  \<^item> \<open>parseConfig\<close>: \<open>JSON.parse\<close> of the \<open>config\<close> form field, read as a
    \<open>GenerationConfig\<close>: \<open>Inl\<close> is the \<open>SyntaxError\<close>'s message, \<open>Inr None\<close> the value
    \<open>null\<close>, and a parsed primitive reads like an object with no fields. The fields
    of a parsed configuration have the types that the interface \<open>GenerationConfig\<close>
    declares. A configuration text that gives a field a value of another type (a number
    for \<open>videoLength\<close>, on which \<open>effectiveDuration.replace\<close> of the video prompt
    assembler throws after the status event of progress 30) is not represented.
  \<^item> \<open>imageBackend k\<close>: the vendor's answer to the \<open>k\<close>-th image call of a request:
    \<open>response.candidates?.[0]?.content?.parts\<close>.
  \<^item> \<open>videoBackend\<close>: what follows the vendor's \<open>generateVideos\<close> request (the
    operation, the polling up to five minutes, the download): the message of whatever is
    thrown there, or the data URL of the downloaded video.
  \<^item> \<open>fileStamp k\<close>: the \<open>${Date.now()}_${random}\<close> part of the \<open>k\<close>-th file name.
\<close>

definition getApiKey :: "world \<Rightarrow> string + string" where
  "getApiKey w =
     (let apiKey = (if truthy (GEMINI_API_KEY w) then GEMINI_API_KEY w else GOOGLE_API_KEY w)
      in if \<not> truthy apiKey then
           Inl ''GOOGLE_API_KEY or GEMINI_API_KEY must be set in .env.local''
         else Inr (the apiKey))"

text \<open>The client is identified with the key it was built from.\<close>

definition getClient :: "world \<Rightarrow> string + string" where
  "getClient w = getApiKey w"

section \<open>AI trend expansion\<close>

definition creativeTrendRequest :: "string \<Rightarrow> contentRequest" where
  "creativeTrendRequest description =
   \<lparr>cr_model = ''gemini-2.0-flash'',
    cr_systemInstruction =
      ''You are a creative director for TikTok/Instagram content. Your job is to '' @
      ''transform a brief description into a detailed creative direction for AI image '' @
      ''generation.\<newline>'' @
      ''\<newline>'' @
      ''Given a user's description of a creative trend, generate a DETAILED creative '' @
      ''prompt that includes:\<newline>'' @
      ''1. Visual Style - Specific artistic direction (lighting, colors, textures, mood)\<newline>'' @
      ''2. Composition - How elements should be arranged and framed\<newline>'' @
      ''3. Atmosphere - The emotional feel and vibe of the image\<newline>'' @
      ''4. Technical Details - Camera perspective, depth of field, special effects\<newline>'' @
      ''\<newline>'' @
      ''Keep the output focused, actionable, and designed for product '' @
      ''photography/promotional content.\<newline>'' @
      ''Output ONLY the creative direction text, no additional explanation or formatting.'',
    cr_userText =
      ''Transform this creative trend description into a detailed image generation prompt:\<newline>'' @
      ''\<newline>'' @
      ''\"'' @
      description @
      ''\"\<newline>'' @
      ''\<newline>'' @
      ''Generate a comprehensive creative direction that an AI image generator can '' @
      ''follow to create stunning product visuals.'',
    cr_maxOutputTokens = 800\<rparr>"

text \<open>
  \<open>getClient()\<close> stands before the \<open>try\<close>, so a missing key is thrown as it is; a
  throw of the vendor call is caught and replaced by the function's own error.
\<close>

definition generateCreativeTrendFromDescription :: "world \<Rightarrow> string \<Rightarrow> string + string" where
  "generateCreativeTrendFromDescription w description =
     (case getClient w of
        Inl e \<Rightarrow> Inl e
      | Inr client \<Rightarrow>
          (case generateContent w (creativeTrendRequest description) of
             Inl e \<Rightarrow> Inl ''Failed to generate creative trend from description''
           | Inr text \<Rightarrow> Inr (orElse (map_option trim text) [])))"

definition videoCreativeTrendRequest :: "string \<Rightarrow> contentRequest" where
  "videoCreativeTrendRequest description =
   \<lparr>cr_model = ''gemini-2.0-flash'',
    cr_systemInstruction =
      ''You are a creative director for TikTok/Instagram video content. Your job is to '' @
      ''transform a brief description into a detailed creative direction for AI video '' @
      ''generation.\<newline>'' @
      ''\<newline>'' @
      ''Given a user's description of a video trend, generate a DETAILED creative '' @
      ''prompt that includes:\<newline>'' @
      ''1. Visual Style - Animation style, movement quality, color treatment\<newline>'' @
      ''2. Camera Motion - Specific camera movements (smooth, handheld, cinematic, etc.)\<newline>'' @
      ''3. Pacing & Rhythm - How the video should flow (MUST be optimized for 8-second '' @
      ''format)\<newline>'' @
      ''4. Transitions - Minimal due to time constraint, quick cuts preferred\<newline>'' @
      ''5. Motion Graphics - Quick, clear effects if applicable\<newline>'' @
      ''\<newline>'' @
      ''CRITICAL: All directions must be achievable within an 8-second timeframe. Focus '' @
      ''on single impactful moments, not complex multi-scene narratives.\<newline>'' @
      ''\<newline>'' @
      ''Output ONLY the creative direction text, no additional explanation or formatting.'',
    cr_userText =
      ''Transform this video trend description into a detailed video generation prompt '' @
      ''optimized for 8 seconds:\<newline>'' @
      ''\<newline>'' @
      ''\"'' @
      description @
      ''\"\<newline>'' @
      ''\<newline>'' @
      ''Generate a comprehensive creative direction that an AI video generator can '' @
      ''follow to create stunning short-form content.'',
    cr_maxOutputTokens = 800\<rparr>"

definition generateVideoCreativeTrendFromDescription :: "world \<Rightarrow> string \<Rightarrow> string + string" where
  "generateVideoCreativeTrendFromDescription w description =
     (case getClient w of
        Inl e \<Rightarrow> Inl e
      | Inr client \<Rightarrow>
          (case generateContent w (videoCreativeTrendRequest description) of
             Inl e \<Rightarrow> Inl ''Failed to generate video creative trend from description''
           | Inr text \<Rightarrow> Inr (orElse (map_option trim text) [])))"

section \<open>The variation generator\<close>

record VariationSpec =
  lighting :: string
  environment :: string
  cameraAngle :: string
  materials :: string

definition lightingOptions :: "string list" where
  "lightingOptions =
     [''soft natural lighting with diffused shadows'',
      ''dramatic studio lighting with high contrast'',
      ''golden hour glow with warm rim lighting'',
      ''cool blue tones with ethereal atmosphere'',
      ''warm ambient light with subtle gradients'']"

definition environmentOptions :: "string list" where
  "environmentOptions =
     [''minimal white background with clean aesthetic'',
      ''textured natural backdrop with organic elements'',
      ''lifestyle setting with contextual props'',
      ''abstract gradient background with modern feel'',
      ''outdoor environment with natural lighting'']"

definition cameraOptions :: "string list" where
  "cameraOptions =
     [''eye-level front view for direct engagement'',
      ''slight overhead angle at 15 degrees'',
      ''low angle hero shot creating empowerment'',
      ''dynamic 3/4 view with depth'',
      ''top-down flat lay composition'']"

definition materialOptions :: "string list" where
  "materialOptions =
     [''matte surfaces with soft texture'',
      ''glossy reflective surfaces with subtle highlights'',
      ''textured organic materials with natural grain'',
      ''metallic accents with premium finish'',
      ''soft fabric textures with gentle folds'']"

text \<open>The body of the \<open>for\<close> loop of \<open>generateFallbackVariations\<close>: the entry pushed at \<open>i\<close>.\<close>

definition fallbackEntry :: "string list \<Rightarrow> nat \<Rightarrow> VariationSpec" where
  "fallbackEntry factors i =
     \<lparr>lighting =
        (if ''lighting'' \<in> set factors then lightingOptions ! (i mod length lightingOptions)
         else ''standard studio lighting''),
      environment =
        (if ''environment'' \<in> set factors
         then environmentOptions ! (i mod length environmentOptions)
         else ''clean studio background''),
      cameraAngle =
        (if ''camera-angle'' \<in> set factors then cameraOptions ! (i mod length cameraOptions)
         else ''standard product angle''),
      materials =
        (if ''materials'' \<in> set factors then materialOptions ! (i mod length materialOptions)
         else ''natural product materials'')\<rparr>"

text \<open>\<open>for (let i = 0; i < count; i++) variations.push(...)\<close>, as a recursion on \<open>i\<close>.\<close>

function fallbackLoop :: "int \<Rightarrow> string list \<Rightarrow> nat \<Rightarrow> VariationSpec list \<Rightarrow> VariationSpec list" where
  "fallbackLoop count factors i variations =
     (if int i < count then fallbackLoop count factors (Suc i) (variations @ [fallbackEntry factors i])
      else variations)"
  by pat_completeness auto
termination
  by (relation "measure (\<lambda>(count, factors, i, variations). nat (count - int i))") auto

declare fallbackLoop.simps [simp del]

definition generateFallbackVariations :: "int \<Rightarrow> string list \<Rightarrow> VariationSpec list" where
  "generateFallbackVariations count factors = fallbackLoop count factors 0 []"

definition factorLabel :: "string \<Rightarrow> string" where
  "factorLabel f =
     (if f = ''lighting'' then ''Lighting style and mood''
      else if f = ''environment'' then ''Background/environment setting''
      else if f = ''camera-angle'' then ''Camera angle and perspective''
      else if f = ''materials'' then ''Material textures and surface treatments''
      else f)"

definition factorsToVary :: "string list \<Rightarrow> string" where
  "factorsToVary varianceFactors = join '', '' (map factorLabel varianceFactors)"

definition variationSpecsRequest :: "string \<Rightarrow> string \<Rightarrow> string list \<Rightarrow> int \<Rightarrow> contentRequest" where
  "variationSpecsRequest baseCreativeDirection brandGuidelines varianceFactors variantCount =
   \<lparr>cr_model = ''gemini-2.0-flash'',
    cr_systemInstruction =
      ''You are a creative director specializing in product photography variations. '' @
      ''Your job is to generate unique, cohesive variation specifications for a series '' @
      ''of product images.\<newline>'' @
      ''\<newline>'' @
      ''Each variation should be distinct but maintain brand consistency. Output ONLY a '' @
      ''valid JSON array with no additional text or markdown formatting.'',
    cr_userText =
      ''Generate '' @
      numberText (variantCount - 1) @
      '' unique variation specifications for product images.\<newline>'' @
      ''\<newline>'' @
      ''BASE CREATIVE DIRECTION:\<newline>'' @
      baseCreativeDirection @
      ''\<newline>'' @
      ''\<newline>'' @
      ''BRAND GUIDELINES:\<newline>'' @
      orElse (Some brandGuidelines) ''Professional, modern brand aesthetic'' @
      ''\<newline>'' @
      ''\<newline>'' @
      ''FACTORS TO VARY: '' @
      factorsToVary varianceFactors @
      ''\<newline>'' @
      ''\<newline>'' @
      ''Generate a JSON array of variation objects. Each object MUST have these exact keys:\<newline>'' @
      ''- \"lighting\": Specific lighting description (e.g., \"soft diffused morning light '' @
      ''with gentle shadows\")\<newline>'' @
      ''- \"environment\": Background/setting description (e.g., \"minimalist white studio '' @
      ''with subtle gradient\")\<newline>'' @
      ''- \"cameraAngle\": Camera perspective (e.g., \"eye-level front view with slight '' @
      ''15-degree tilt\")\<newline>'' @
      ''- \"materials\": Surface/texture emphasis (e.g., \"matte surfaces with soft velvet '' @
      ''undertones\")\<newline>'' @
      ''\<newline>'' @
      ''Make each variation distinctly different while maintaining brand cohesion.\<newline>'' @
      ''Output ONLY the JSON array, no explanation or markdown code blocks.\<newline>'' @
      ''\<newline>'' @
      ''Example format:\<newline>'' @
      ''[{\"lighting\":\"...\",\"environment\":\"...\",\"cameraAngle\":\"...\",\"materials\":\"...\"}]'',
    cr_maxOutputTokens = 2000\<rparr>"

definition fence :: string where
  "fence = [CHR 0x60, CHR 0x60, CHR 0x60]"

text \<open>
  \<open>s.replace(/```json?\n?/g, "")\<close>: every occurrence of the fence followed by \<open>jso\<close>,
  with an \<open>n\<close> and a line feed after it when they are there, is removed, scanning from
  the left. (The pattern does not match a bare fence.)
\<close>

definition afterFenceOpen :: "string \<Rightarrow> string" where
  "afterFenceOpen s =
     (let r = drop 6 s;
          r1 = (if r \<noteq> [] \<and> hd r = CHR ''n'' then tl r else r)
      in if r1 \<noteq> [] \<and> hd r1 = CHR 0x0A then tl r1 else r1)"

function stripFenceOpen :: "string \<Rightarrow> string" where
  "stripFenceOpen s =
     (if s = [] then []
      else if prefix (fence @ ''jso'') s then stripFenceOpen (afterFenceOpen s)
      else hd s # stripFenceOpen (tl s))"
  by pat_completeness auto
termination
proof (relation "measure length")
  fix s :: string
  assume "s \<noteq> []"
  then show "(afterFenceOpen s, s) \<in> measure length"
    by (cases s) (auto simp: afterFenceOpen_def Let_def)
qed auto

declare stripFenceOpen.simps [simp del]

text \<open>\<open>s.replace(/```$/g, "")\<close>: a fence at the very end of the text is removed.\<close>

definition stripFenceEnd :: "string \<Rightarrow> string" where
  "stripFenceEnd s = (if suffix fence s then take (length s - 3) s else s)"

text \<open>
  The text handed to \<open>JSON.parse\<close>: \<open>response.text?.trim() || "[]"\<close>, with the
  fence markers stripped when it starts with a fence.
\<close>

definition cleanJson :: "string option \<Rightarrow> string" where
  "cleanJson text =
     (let responseText = orElse (map_option trim text) ''[]''
      in if prefix fence responseText
         then trim (stripFenceEnd (stripFenceOpen responseText))
         else responseText)"

definition specJson :: "VariationSpec \<Rightarrow> json" where
  "specJson v =
     JObj [(''lighting'', JStr (lighting v)), (''environment'', JStr (environment v)),
           (''cameraAngle'', JStr (cameraAngle v)), (''materials'', JStr (materials v))]"

text \<open>
  \<open>generateVariationSpecs\<close> returns whatever \<open>JSON.parse\<close> gave, typed as
  \<open>VariationSpec[]\<close> without a check, so its value is a \<^typ>\<open>json\<close>; the fallback's
  array of records is the array of the corresponding objects. Inside the \<open>try\<close>, the
  log line reads \<open>variations.length\<close>, which throws on \<open>null\<close>.
\<close>

definition generateVariationSpecs ::
    "world \<Rightarrow> string \<Rightarrow> string \<Rightarrow> string list \<Rightarrow> int \<Rightarrow> string + json" where
  "generateVariationSpecs w baseCreativeDirection brandGuidelines varianceFactors variantCount =
     (if variantCount \<le> 1 \<or> length varianceFactors = 0 then Inr (JArr [])
      else
        (case getClient w of
           Inl e \<Rightarrow> Inl e
         | Inr client \<Rightarrow>
             (case generateContent w
                     (variationSpecsRequest baseCreativeDirection brandGuidelines
                        varianceFactors variantCount) of
                Inl e \<Rightarrow>
                  Inr (JArr (map specJson
                         (generateFallbackVariations (variantCount - 1) varianceFactors)))
              | Inr text \<Rightarrow>
                  (case JSON_parse w (cleanJson text) of
                     None \<Rightarrow>
                       Inr (JArr (map specJson
                              (generateFallbackVariations (variantCount - 1) varianceFactors)))
                   | Some JNull \<Rightarrow>
                       Inr (JArr (map specJson
                              (generateFallbackVariations (variantCount - 1) varianceFactors)))
                   | Some variations \<Rightarrow> Inr variations))))"

section \<open>The generation clients\<close>

record ImageGenerationParams =
  ig_prompt :: string
  ig_referenceImages :: "buffer list option"
  ig_aspectRatio :: "string option"
  ig_numberOfImages :: "int option"

record VideoGenerationParams =
  vg_prompt :: string
  vg_anchorImages :: "buffer list option"
  vg_duration :: "string option"
  vg_aspectRatio :: "string option"

record GenerationResult =
  gr_type :: string
  gr_filePath :: string
  gr_fileName :: string
  gr_mimeType :: string

definition IMAGE_MODEL :: "world \<Rightarrow> string" where
  "IMAGE_MODEL w = orElse (IMAGE_MODEL_ID w) ''gemini-3-pro-image-preview''"

definition VIDEO_MODEL :: "world \<Rightarrow> string" where
  "VIDEO_MODEL w = orElse (VIDEO_MODEL_ID w) ''veo-3.1-generate-preview''"

definition generateFileName :: "string \<Rightarrow> string \<Rightarrow> string \<Rightarrow> string" where
  "generateFileName kind extension stamp = kind @ ''_'' @ stamp @ ''.'' @ extension"

definition imageParts :: "world \<Rightarrow> ImageGenerationParams \<Rightarrow> requestPart list" where
  "imageParts w params =
     (case ig_referenceImages params of
        None \<Rightarrow> []
      | Some referenceImages \<Rightarrow>
          (if length referenceImages > 0
           then map (\<lambda>imageBuffer. InlineData ''image/png'' (toBase64 w imageBuffer)) referenceImages
           else [])) @
     [TextPart (ig_prompt params)]"

text \<open>The first part whose \<open>inlineData?.mimeType?.startsWith("image/")\<close> holds.\<close>

fun findImage :: "responsePart list \<Rightarrow> (string \<times> string option) option" where
  "findImage [] = None"
| "findImage (p # ps) =
     (case rp_inlineData p of
        Some (Some m, d) \<Rightarrow> (if prefix ''image/'' m then Some (m, d) else findImage ps)
      | _ \<Rightarrow> findImage ps)"

definition generateImage :: "world \<Rightarrow> nat \<Rightarrow> ImageGenerationParams \<Rightarrow> string + GenerationResult" where
  "generateImage w k params =
     (case getClient w of
        Inl e \<Rightarrow> Inl e
      | Inr client \<Rightarrow>
          (case imageBackend w k \<lparr>ir_model = IMAGE_MODEL w, ir_parts = imageParts w params\<rparr> of
             Inl errorMessage \<Rightarrow> Inl (''Image generation failed: '' @ errorMessage)
           | Inr parts \<Rightarrow>
               (case (case parts of None \<Rightarrow> None | Some ps \<Rightarrow> findImage ps) of
                  Some (m, base64Data) \<Rightarrow>
                    Inr \<lparr>gr_type = ''image'',
                         gr_filePath =
                           ''data:'' @ m @ '';base64,'' @
                           (case base64Data of None \<Rightarrow> ''undefined'' | Some d \<Rightarrow> d),
                         gr_fileName = generateFileName ''image'' ''png'' (fileStamp w k),
                         gr_mimeType = m\<rparr>
                | None \<Rightarrow> Inl ''Image generation failed: Model did not return an image.'')))"

text \<open>
  The argument of \<open>client.models.generateVideos\<close> that \<open>generateVideo\<close> builds. The
  destructuring default gives \<open>"9:16"\<close> to an absent aspect ratio; \<open>duration\<close> is not
  destructured and not read.
\<close>

definition generateVideosRequest :: "world \<Rightarrow> VideoGenerationParams \<Rightarrow> videoRequest" where
  "generateVideosRequest w params =
     (let aspectRatio = (case vg_aspectRatio params of None \<Rightarrow> ''9:16'' | Some a \<Rightarrow> a)
      in if (case vg_anchorImages params of None \<Rightarrow> False | Some imgs \<Rightarrow> length imgs > 0) then
           (let referenceImages =
                  map (\<lambda>img. \<lparr>imageBytes = toBase64 w img, mimeType = ''image/png''\<rparr>)
                    (take 3 (the (vg_anchorImages params)))
            in \<lparr>vq_model = VIDEO_MODEL w, vq_prompt = vg_prompt params,
                vq_image = Some (referenceImages ! 0), vq_aspectRatio = aspectRatio\<rparr>)
         else
           \<lparr>vq_model = VIDEO_MODEL w, vq_prompt = vg_prompt params,
            vq_image = None, vq_aspectRatio = aspectRatio\<rparr>)"

definition generateVideo :: "world \<Rightarrow> VideoGenerationParams \<Rightarrow> string + GenerationResult" where
  "generateVideo w params =
     (case getClient w of
        Inl e \<Rightarrow> Inl e
      | Inr client \<Rightarrow>
          (case videoBackend w (generateVideosRequest w params) of
             Inl errorMessage \<Rightarrow> Inl (''Video generation failed: '' @ errorMessage)
           | Inr dataUrl \<Rightarrow>
               Inr \<lparr>gr_type = ''video'', gr_filePath = dataUrl,
                    gr_fileName = generateFileName ''video'' ''mp4'' (fileStamp w 0),
                    gr_mimeType = ''video/mp4''\<rparr>))"

section \<open>Reading a parsed JSON value\<close>

text \<open>
  What the dispatch loop does with the value of \<open>generateVariationSpecs\<close>:
  \<open>variationSpecs[i - 1]\<close>, its truthiness, and \<open>spec.lighting\<close> (and the three other
  keys, none of which \<open>Object.prototype\<close> has) inside a template literal. \<open>None\<close> is
  \<open>undefined\<close>.
\<close>

fun jsIndex :: "json \<Rightarrow> nat \<Rightarrow> json option" where
  "jsIndex (JArr xs) i = (if i < length xs then Some (xs ! i) else None)"
| "jsIndex (JStr s) i = (if i < length s then Some (JStr [s ! i]) else None)"
| "jsIndex (JObj kvs) i = map_of (rev kvs) (numberText (int i))"
| "jsIndex v i = None"

fun jsTruthy :: "json option \<Rightarrow> bool" where
  "jsTruthy None = False"
| "jsTruthy (Some JNull) = False"
| "jsTruthy (Some (JBool b)) = b"
| "jsTruthy (Some (JNum n)) = (n \<noteq> ''0'')"
| "jsTruthy (Some (JStr s)) = (s \<noteq> [])"
| "jsTruthy (Some v) = True"

fun jsProp :: "json \<Rightarrow> string \<Rightarrow> json option" where
  "jsProp (JObj kvs) k = map_of (rev kvs) k"
| "jsProp v k = None"

fun jsText :: "json \<Rightarrow> string" where
  "jsText JNull = ''null''"
| "jsText (JBool b) = (if b then ''true'' else ''false'')"
| "jsText (JNum n) = n"
| "jsText (JStr s) = s"
| "jsText (JArr xs) = join '','' (map (\<lambda>x. if x = JNull then [] else jsText x) xs)"
| "jsText (JObj kvs) = ''[object Object]''"

definition templateText :: "json option \<Rightarrow> string" where
  "templateText v = (case v of None \<Rightarrow> ''undefined'' | Some j \<Rightarrow> jsText j)"

section \<open>The generation endpoint\<close>

record fileInfo =
  fi_filePath :: string
  fi_fileName :: string
  fi_mimeType :: string

datatype resultValue = Single string | Many "string list"

record imageMetadata =
  im_count :: nat
  im_files :: "fileInfo list"
  im_trend :: "string option"
  im_aspectRatio :: string
  im_downloadUrl :: string

record videoMetadata =
  vm_fileName :: string
  vm_mimeType :: string
  vm_trend :: "string option"
  vm_duration :: string
  vm_aspectRatio :: string
  vm_downloadUrl :: string
  vm_hasReferenceImages :: bool

text \<open>
  The three shapes of a server-sent event: \<open>{status, progress}\<close>, \<open>{result, metadata}\<close>
  (for images and for a video) and \<open>{error}\<close>.
\<close>

datatype event =
    StatusEvent string int
  | ImageResultEvent resultValue imageMetadata
  | VideoResultEvent string videoMetadata
  | ErrorEvent string

text \<open>
  A run of the endpoint: the events enqueued on the stream so far, whether the stream has
  been closed, and the parameters of the calls made to \<open>generateImage\<close> and
  \<open>generateVideo\<close>, in order.
\<close>

record run =
  events :: "event list"
  closed :: bool
  imageCalls :: "ImageGenerationParams list"
  videoCalls :: "VideoGenerationParams list"

definition emptyRun :: run where
  "emptyRun = \<lparr>events = [], closed = False, imageCalls = [], videoCalls = []\<rparr>"

definition enqueue :: "event \<Rightarrow> run \<Rightarrow> run" where
  "enqueue e r = r\<lparr>events := events r @ [e]\<rparr>"

definition sendStatus :: "string \<Rightarrow> int \<Rightarrow> run \<Rightarrow> run" where
  "sendStatus message progress r = enqueue (StatusEvent message progress) r"

definition closeStream :: "run \<Rightarrow> run" where
  "closeStream r = r\<lparr>closed := True\<rparr>"

datatype formValue = FileValue buffer | TextValue string

record request =
  rq_formData :: "string + (string \<times> formValue) list"

text \<open>\<open>rq_formData\<close>: \<open>Inl\<close> when \<open>request.formData()\<close> rejects; else the entries in order.\<close>

definition formText :: "formValue \<Rightarrow> string" where
  "formText v = (case v of TextValue s \<Rightarrow> s | FileValue b \<Rightarrow> ''[object File]'')"

text \<open>
  The loop over \<open>formData.entries()\<close> that fills \<open>uploadedImages\<close> and
  \<open>anchorImageBuffers\<close> (in this order in the pair).
\<close>

fun collectFiles :: "(string \<times> formValue) list \<Rightarrow> buffer list \<times> buffer list \<Rightarrow> buffer list \<times> buffer list" where
  "collectFiles [] acc = acc"
| "collectFiles ((key, TextValue s) # es) acc = collectFiles es acc"
| "collectFiles ((key, FileValue buf) # es) (uploadedImages, anchorImageBuffers) =
     (if key \<noteq> ''config'' then
        (if prefix ''anchorImage_'' key
         then collectFiles es (uploadedImages, anchorImageBuffers @ [buf])
         else if prefix ''productImage_'' key \<or> key = ''lookAndFeel''
         then collectFiles es (uploadedImages @ [buf], anchorImageBuffers)
         else collectFiles es (uploadedImages, anchorImageBuffers))
      else collectFiles es (uploadedImages, anchorImageBuffers))"

definition countProductImages :: "(string \<times> formValue) list \<Rightarrow> nat" where
  "countProductImages formData = length (filter (\<lambda>(key, v). prefix ''productImage_'' key) formData)"

definition countMoodboardImages :: "(string \<times> formValue) list \<Rightarrow> nat" where
  "countMoodboardImages formData = length (filter (\<lambda>(key, v). key = ''lookAndFeel'') formData)"

subsection \<open>The image dispatch loop\<close>

definition variationSection :: "nat \<Rightarrow> json \<Rightarrow> string" where
  "variationSection i spec =
     ''VARIATION SPECIFICATIONS FOR VARIANT #'' @ numberText (int i + 1) @ '':\<newline>'' @
     ''\<newline>'' @
     ''Lighting: '' @ templateText (jsProp spec ''lighting'') @ ''\<newline>'' @
     ''\<newline>'' @
     ''Environment: '' @ templateText (jsProp spec ''environment'') @ ''\<newline>'' @
     ''\<newline>'' @
     ''Camera Angle: '' @ templateText (jsProp spec ''cameraAngle'') @ ''\<newline>'' @
     ''\<newline>'' @
     ''Materials: '' @ templateText (jsProp spec ''materials'')"

definition variantPrompt :: "string \<Rightarrow> json \<Rightarrow> nat \<Rightarrow> string" where
  "variantPrompt structuredPrompt variationSpecs i =
     (if i = 0 then structuredPrompt
      else if jsTruthy (jsIndex variationSpecs (i - 1)) then
        structuredPrompt @ ''\<newline>\<newline>---\<newline>\<newline>'' @
        variationSection i (the (jsIndex variationSpecs (i - 1)))
      else structuredPrompt)"

text \<open>
  \<open>25 + Math.floor((i / variantCount) * 60)\<close>. The loop evaluates it only for
  \<open>0 \<le> i < variantCount\<close>, where the quotient of the integers is the floor of the exact
  value; the double-precision computation of the source gives the same integer there for
  every count a request can reasonably carry.
\<close>

definition progressBase :: "nat \<Rightarrow> int \<Rightarrow> int" where
  "progressBase i variantCount = 25 + (int i * 60) div variantCount"

definition imageParams :: "GenerationConfig \<Rightarrow> buffer list \<Rightarrow> string \<Rightarrow> ImageGenerationParams" where
  "imageParams config uploadedImages prompt =
     \<lparr>ig_prompt = prompt,
      ig_referenceImages = (if length uploadedImages > 0 then Some uploadedImages else None),
      ig_aspectRatio = Some (orElse (cfg_aspectRatio config) ''9:16''),
      ig_numberOfImages = Some 1\<rparr>"

text \<open>The status message and the call parameters of unit \<open>i\<close> of the loop.\<close>

definition loopMessage :: "nat \<Rightarrow> int \<Rightarrow> string" where
  "loopMessage i variantCount =
     ''Generating image '' @ numberText (int i + 1) @ '' of '' @ numberText variantCount @ ''...''"

definition unitParams ::
    "GenerationConfig \<Rightarrow> buffer list \<Rightarrow> string \<Rightarrow> json \<Rightarrow> nat \<Rightarrow> ImageGenerationParams" where
  "unitParams config uploadedImages structuredPrompt variationSpecs i =
     imageParams config uploadedImages (variantPrompt structuredPrompt variationSpecs i)"

text \<open>
  \<open>for (let i = 0; i < variantCount; i++) { ... }\<close> inside the \<open>try\<close>: the value is
  \<open>Inl message\<close> when a call to \<open>generateImage\<close> throws (the loop is left at once), else
  the results; the run carries the events and calls made on the way.
\<close>

function imageLoop ::
    "world \<Rightarrow> GenerationConfig \<Rightarrow> buffer list \<Rightarrow> string \<Rightarrow> json \<Rightarrow> int \<Rightarrow> nat \<Rightarrow>
     fileInfo list \<Rightarrow> run \<Rightarrow> (string + fileInfo list) \<times> run" where
  "imageLoop w config uploadedImages structuredPrompt variationSpecs variantCount i results r =
     (if int i < variantCount then
        (let r1 = sendStatus (loopMessage i variantCount) (progressBase i variantCount) r;
             params = unitParams config uploadedImages structuredPrompt variationSpecs i;
             r2 = r1\<lparr>imageCalls := imageCalls r1 @ [params]\<rparr>
         in case generateImage w i params of
              Inl message \<Rightarrow> (Inl message, r2)
            | Inr result \<Rightarrow>
                imageLoop w config uploadedImages structuredPrompt variationSpecs variantCount
                  (Suc i)
                  (results @ [\<lparr>fi_filePath = gr_filePath result,
                                fi_fileName = gr_fileName result,
                                fi_mimeType = gr_mimeType result\<rparr>])
                  r2)
      else (Inr results, r))"
  by pat_completeness auto
termination
  by (relation "measure (\<lambda>(w, config, uploadedImages, structuredPrompt, variationSpecs,
                           variantCount, i, results, r). nat (variantCount - int i))") auto

declare imageLoop.simps [simp del]

definition baseCreativeDirection :: "GenerationConfig \<Rightarrow> string option \<Rightarrow> string" where
  "baseCreativeDirection config aiGeneratedTrend =
     (if cfg_creativeTrendType config = Some ''preset'' \<and> truthy (cfg_selectedPreset config)
      then ''Preset: '' @ the (cfg_selectedPreset config)
      else if cfg_creativeTrendType config = Some ''ai'' \<and> truthy aiGeneratedTrend
      then the aiGeneratedTrend
      else ''Product photography with professional aesthetic'')"

definition imageResultEvent :: "GenerationConfig \<Rightarrow> fileInfo list \<Rightarrow> event" where
  "imageResultEvent config results =
     ImageResultEvent
       (if length results = 1 then Single (fi_filePath (results ! 0))
        else Many (map fi_filePath results))
       \<lparr>im_count = length results,
        im_files = results,
        im_trend = cfg_trendType config,
        im_aspectRatio = orElse (cfg_aspectRatio config) ''9:16'',
        im_downloadUrl = fi_filePath (results ! 0)\<rparr>"

text \<open>
  The first statement of the \<open>try\<close> of the image branch: the variation specs, asked
  for only when several variants and at least one variance factor are requested.
\<close>

definition variationStep ::
    "world \<Rightarrow> GenerationConfig \<Rightarrow> string option \<Rightarrow> int \<Rightarrow> run \<Rightarrow> (string + json) \<times> run" where
  "variationStep w config aiGeneratedTrend variantCount r =
     (if variantCount > 1 \<and>
         (case cfg_varianceFactors config of None \<Rightarrow> False | Some fs \<Rightarrow> length fs > 0)
      then
        (let r1 = sendStatus ''AI generating unique variation specs for each variant...'' 22 r
         in (generateVariationSpecs w (baseCreativeDirection config aiGeneratedTrend)
               (orElse (cfg_brandGuidelines config) [])
               (the (cfg_varianceFactors config)) variantCount, r1))
      else (Inr (JArr []), r))"

text \<open>
  The statements after the loop. Building the payload reads \<open>results[0].filePath\<close>,
  which throws a \<open>TypeError\<close> when there is no result.
\<close>

definition finishImages ::
    "GenerationConfig \<Rightarrow> int \<Rightarrow> fileInfo list \<Rightarrow> run \<Rightarrow> (string + unit) \<times> run" where
  "finishImages config variantCount results r =
     (let r1 = sendStatus (numberText variantCount @ '' image(s) generated successfully!'') 90 r;
          r2 = sendStatus ''Preparing for preview...'' 95 r1
      in if results = [] then
           (Inl ''Cannot read properties of undefined (reading 'filePath')'', r2)
         else (Inr (), enqueue (imageResultEvent config results) r2))"

text \<open>The body of the \<open>try\<close> of the image branch.\<close>

definition imageTry ::
    "world \<Rightarrow> GenerationConfig \<Rightarrow> buffer list \<Rightarrow> string \<Rightarrow> string option \<Rightarrow> int \<Rightarrow> run \<Rightarrow>
     (string + unit) \<times> run" where
  "imageTry w config uploadedImages structuredPrompt aiGeneratedTrend variantCount r =
     (case variationStep w config aiGeneratedTrend variantCount r of
        (Inl message, r1) \<Rightarrow> (Inl message, r1)
      | (Inr variationSpecs, r1) \<Rightarrow>
          (case imageLoop w config uploadedImages structuredPrompt variationSpecs variantCount
                  0 [] r1 of
             (Inl message, r2) \<Rightarrow> (Inl message, r2)
           | (Inr results, r2) \<Rightarrow> finishImages config variantCount results r2))"

text \<open>\<open>config.variantCount || 1\<close>.\<close>

definition variantCountOf :: "GenerationConfig \<Rightarrow> int" where
  "variantCountOf config =
     (case cfg_variantCount config of None \<Rightarrow> 1 | Some n \<Rightarrow> (if n = 0 then 1 else n))"

definition imageBranch ::
    "world \<Rightarrow> GenerationConfig \<Rightarrow> buffer list \<Rightarrow> string \<Rightarrow> string option \<Rightarrow> run \<Rightarrow> run" where
  "imageBranch w config uploadedImages structuredPrompt aiGeneratedTrend r =
     (let r1 = sendStatus ''Connecting to Nano Banana Pro (gemini-3-pro-image)...'' 20 r;
          variantCount = variantCountOf config
      in case imageTry w config uploadedImages structuredPrompt aiGeneratedTrend variantCount r1 of
           (Inl message, r2) \<Rightarrow> enqueue (ErrorEvent message) r2
         | (Inr u, r2) \<Rightarrow> r2)"

subsection \<open>The video dispatch\<close>

definition optIndex :: "'a list option \<Rightarrow> nat \<Rightarrow> 'a option" where
  "optIndex xs i = (case xs of None \<Rightarrow> None | Some l \<Rightarrow> (if i < length l then Some (l ! i) else None))"

definition referenceImagesOf :: "GenerationConfig \<Rightarrow> buffer list \<Rightarrow> VideoReferenceImage list" where
  "referenceImagesOf config anchorImageBuffers =
     map (\<lambda>i. \<lparr>vr_index = int i + 1,
               vr_purpose = orElse (optIndex (cfg_imagePurposes config) i) ''product'',
               vr_customDescription =
                 (if optIndex (cfg_imagePurposes config) i = Some ''custom''
                  then optIndex (cfg_customPurposeDescriptions config) i else None)\<rparr>)
       [0 ..< length anchorImageBuffers]"

definition videoCreativeTrendConfig :: "GenerationConfig \<Rightarrow> string option \<Rightarrow> creativeTrend" where
  "videoCreativeTrendConfig config aiGeneratedVideoTrend =
     (if cfg_videoCreativeTrendType config = Some ''preset'' \<and> truthy (cfg_selectedVideoPreset config)
      then \<lparr>trend_type = Preset, presetId = cfg_selectedVideoPreset config, customPrompt = None\<rparr>
      else if cfg_videoCreativeTrendType config = Some ''ai'' \<and> truthy aiGeneratedVideoTrend
      then \<lparr>trend_type = AiGenerated, presetId = None, customPrompt = aiGeneratedVideoTrend\<rparr>
      else \<lparr>trend_type = Skip, presetId = None, customPrompt = None\<rparr>)"

definition videoPromptParams ::
    "GenerationConfig \<Rightarrow> buffer list \<Rightarrow> string option \<Rightarrow> VideoPromptParams" where
  "videoPromptParams config anchorImageBuffers aiGeneratedVideoTrend =
     (\<lparr>vp_referenceImages = referenceImagesOf config anchorImageBuffers,
          vp_creativeTrend = Some (videoCreativeTrendConfig config aiGeneratedVideoTrend),
          vp_brandGuidelines = orElse (cfg_brandGuidelines config) [],
          vp_primaryColor = orElse (cfg_primaryColor config) ''#25F4EE'',
          vp_secondaryColor = orElse (cfg_secondaryColor config) ''#FE2C55'',
          vp_narrative = orElse (cfg_narrative config) ''Create an engaging video loop.'',
          vp_narrativeTemplate = cfg_narrativeTemplate config,
          vp_aspectRatio = orElse (cfg_aspectRatio config) ''9:16'',
          vp_duration =
            (if length anchorImageBuffers > 0 then ''8s''
             else orElse (cfg_videoLength config) ''6s'')\<rparr>)"

text \<open>The \<open>effectiveDuration\<close> of the endpoint, computed inside its \<open>try\<close>.\<close>

definition requestDuration :: "GenerationConfig \<Rightarrow> buffer list \<Rightarrow> string" where
  "requestDuration config anchorImageBuffers =
     (if length anchorImageBuffers > 0 then ''8s'' else orElse (cfg_videoLength config) ''6s'')"

definition videoParams ::
    "world \<Rightarrow> GenerationConfig \<Rightarrow> buffer list \<Rightarrow> string option \<Rightarrow> VideoGenerationParams" where
  "videoParams w config anchorImageBuffers aiGeneratedVideoTrend =
     \<lparr>vg_prompt = buildVideoStructuredPrompt (videoPresets w)
                    (videoPromptParams config anchorImageBuffers aiGeneratedVideoTrend),
      vg_anchorImages = (if length anchorImageBuffers > 0 then Some anchorImageBuffers else None),
      vg_duration = Some (requestDuration config anchorImageBuffers),
      vg_aspectRatio = Some (orElse (cfg_aspectRatio config) ''9:16'')\<rparr>"

definition videoResultEvent ::
    "GenerationConfig \<Rightarrow> buffer list \<Rightarrow> GenerationResult \<Rightarrow> event" where
  "videoResultEvent config anchorImageBuffers result =
     VideoResultEvent (gr_filePath result)
       \<lparr>vm_fileName = gr_fileName result,
        vm_mimeType = gr_mimeType result,
        vm_trend = (if truthy (cfg_selectedVideoPreset config) then cfg_selectedVideoPreset config
                    else cfg_trendType config),
        vm_duration = requestDuration config anchorImageBuffers,
        vm_aspectRatio = orElse (cfg_aspectRatio config) ''9:16'',
        vm_downloadUrl = gr_filePath result,
        vm_hasReferenceImages = (length anchorImageBuffers > 0)\<rparr>"

text \<open>From \<open>"Building structured video prompt..."\<close> to the end of the video branch.\<close>

definition videoDispatch ::
    "world \<Rightarrow> GenerationConfig \<Rightarrow> buffer list \<Rightarrow> string option \<Rightarrow> run \<Rightarrow> run" where
  "videoDispatch w config anchorImageBuffers aiGeneratedVideoTrend r =
     (let r1 = sendStatus ''Building structured video prompt...'' 30 r;
          r2 = sendStatus ''Generating video loop (this may take a few minutes)...'' 40 r1;
          params = videoParams w config anchorImageBuffers aiGeneratedVideoTrend;
          r3 = r2\<lparr>videoCalls := videoCalls r2 @ [params]\<rparr>
      in case generateVideo w params of
           Inl message \<Rightarrow> enqueue (ErrorEvent message) r3
         | Inr result \<Rightarrow>
             (let r4 = sendStatus ''Video generated successfully!'' 90 r3;
                  r5 = sendStatus ''Preparing for preview...'' 95 r4
              in enqueue (videoResultEvent config anchorImageBuffers result) r5))"

text \<open>
  The video branch. The video trend expansion is awaited outside the branch's
  \<open>try\<close>: its throw leaves the branch (\<open>Inl\<close>) for the handler of the whole request.
\<close>

definition videoBranch ::
    "world \<Rightarrow> GenerationConfig \<Rightarrow> buffer list \<Rightarrow> run \<Rightarrow> (string + unit) \<times> run" where
  "videoBranch w config anchorImageBuffers r =
     (let r1 = sendStatus ''Connecting to Veo 3.1...'' 20 r
      in if cfg_videoCreativeTrendType config = Some ''ai'' \<and>
            truthy (cfg_aiVideoTrendDescription config) then
           (let r2 = sendStatus
                       ''AI generating video creative trend from your description...'' 25 r1
            in case generateVideoCreativeTrendFromDescription w
                      (the (cfg_aiVideoTrendDescription config)) of
                 Inl message \<Rightarrow> (Inl message, r2)
               | Inr aiGeneratedVideoTrend \<Rightarrow>
                   (Inr (), videoDispatch w config anchorImageBuffers
                              (Some aiGeneratedVideoTrend) r2))
         else (Inr (), videoDispatch w config anchorImageBuffers None r1))"

subsection \<open>The request handler\<close>

definition creativeTrendConfig :: "GenerationConfig \<Rightarrow> string option \<Rightarrow> creativeTrend" where
  "creativeTrendConfig config aiGeneratedTrend =
     (if cfg_creativeTrendType config = Some ''preset'' \<and> truthy (cfg_selectedPreset config)
      then \<lparr>trend_type = Preset, presetId = cfg_selectedPreset config, customPrompt = None\<rparr>
      else if cfg_creativeTrendType config = Some ''ai'' \<and> truthy aiGeneratedTrend
      then \<lparr>trend_type = AiGenerated, presetId = None, customPrompt = aiGeneratedTrend\<rparr>
      else \<lparr>trend_type = Skip, presetId = None, customPrompt = None\<rparr>)"

definition structuredPromptParams ::
    "GenerationConfig \<Rightarrow> (string \<times> formValue) list \<Rightarrow> string option \<Rightarrow> StructuredPromptParams" where
  "structuredPromptParams config formData aiGeneratedTrend =
     \<lparr>sp_referenceImageInteraction =
        (if cfg_useImageInteraction config then cfg_imageInteractionDescription config else None),
      sp_referenceImageCount = int (countProductImages formData),
      sp_creativeTrend = Some (creativeTrendConfig config aiGeneratedTrend),
      sp_brandGuidelines = orElse (cfg_brandGuidelines config) [],
      sp_primaryColor = orElse (cfg_primaryColor config) ''#25F4EE'',
      sp_secondaryColor = orElse (cfg_secondaryColor config) ''#FE2C55'',
      sp_moodboardImageCount = int (countMoodboardImages formData),
      sp_moodboardStartIndex = int (countProductImages formData),
      sp_aspectRatio = orElse (cfg_aspectRatio config) ''9:16'',
      sp_variantNumber = None,
      sp_variationSpecs = None\<rparr>"

text \<open>
  From the structured prompt to \<open>controller.close()\<close>. (The legacy \<open>basePrompt\<close> and
  \<open>trendPrompt\<close> are computed by pure functions and never used; they are left out.)
\<close>

definition dispatch ::
    "world \<Rightarrow> GenerationConfig \<Rightarrow> (string \<times> formValue) list \<Rightarrow> buffer list \<Rightarrow> buffer list \<Rightarrow>
     string option \<Rightarrow> run \<Rightarrow> (string + unit) \<times> run" where
  "dispatch w config formData uploadedImages anchorImageBuffers aiGeneratedTrend r =
     (let structuredPrompt =
            buildStructuredPrompt (imagePresets w)
              (structuredPromptParams config formData aiGeneratedTrend);
          r1 = sendStatus ''Applying structured prompt template...'' 15 r
      in case (if cfg_protocolType config = Some ''IMAGE''
               then (Inr (), imageBranch w config uploadedImages structuredPrompt
                               aiGeneratedTrend r1)
               else videoBranch w config anchorImageBuffers r1) of
           (Inl message, r2) \<Rightarrow> (Inl message, r2)
         | (Inr u, r2) \<Rightarrow> (Inr (), closeStream (sendStatus ''Complete!'' 100 r2)))"

text \<open>The message of the second status event: \<open>a + b || 1\<close> files.\<close>

definition processingMessage :: "(string \<times> formValue) list \<Rightarrow> string" where
  "processingMessage formData =
     (let n = length (fst (collectFiles formData ([], []))) +
              length (snd (collectFiles formData ([], [])))
      in ''Processing '' @ numberText (int (if n = 0 then 1 else n)) @ '' uploaded file(s)...'')"

text \<open>
  From the first read of \<open>config\<close> on: the AI trend expansion, awaited with no
  \<open>try\<close> of its own, and then the dispatch.
\<close>

definition expandAndDispatch ::
    "world \<Rightarrow> GenerationConfig \<Rightarrow> (string \<times> formValue) list \<Rightarrow> run \<Rightarrow> (string + unit) \<times> run" where
  "expandAndDispatch w config formData r =
     (let uploadedImages = fst (collectFiles formData ([], []));
          anchorImageBuffers = snd (collectFiles formData ([], []))
      in if cfg_creativeTrendType config = Some ''ai'' \<and>
            truthy (cfg_aiTrendDescription config) then
           (let r1 = sendStatus ''AI generating creative trend from your description...'' 12 r
            in case generateCreativeTrendFromDescription w
                      (the (cfg_aiTrendDescription config)) of
                 Inl message \<Rightarrow> (Inl message, r1)
               | Inr aiGeneratedTrend \<Rightarrow>
                   dispatch w config formData uploadedImages anchorImageBuffers
                     (Some aiGeneratedTrend) r1)
         else dispatch w config formData uploadedImages anchorImageBuffers None r)"

text \<open>
  The body of the outer \<open>try\<close>. The first read of a field of \<open>config\<close> is
  \<open>config.creativeTrendType\<close>, which throws a \<open>TypeError\<close> on \<open>null\<close>.
\<close>

definition postTry :: "world \<Rightarrow> request \<Rightarrow> run \<Rightarrow> (string + unit) \<times> run" where
  "postTry w req r =
     (case rq_formData req of
        Inl message \<Rightarrow> (Inl message, r)
      | Inr formData \<Rightarrow>
          (let configStr = map_option formText (map_of formData ''config'')
           in if \<not> truthy configStr then
                (Inr (), closeStream (enqueue (ErrorEvent ''No configuration provided'') r))
              else
                (case parseConfig w (the configStr) of
                   Inl message \<Rightarrow> (Inl message, r)
                 | Inr parsed \<Rightarrow>
                     (let r1 = sendStatus ''Initializing AI generation...'' 5 r;
                          r2 = sendStatus (processingMessage formData) 10 r1
                      in case parsed of
                           None \<Rightarrow>
                             (Inl ''Cannot read properties of null (reading 'creativeTrendType')'',
                              r2)
                         | Some config \<Rightarrow> expandAndDispatch w config formData r2))))"

text \<open>\<open>POST\<close>: the outer \<open>try\<close> and its \<open>catch\<close>, from an empty stream.\<close>

definition POST :: "world \<Rightarrow> request \<Rightarrow> run" where
  "POST w req =
     (case postTry w req emptyRun of
        (Inl message, r) \<Rightarrow> closeStream (enqueue (ErrorEvent message) r)
      | (Inr u, r) \<Rightarrow> r)"

section \<open>Section headers and sample inputs\<close>



text \<open>
  A world used to run the code on concrete inputs: an API key is set, the catalogs are
  empty, \<open>JSON.parse\<close> knows the one text \<open>[]\<close>, and every vendor call throws. The other
  sample worlds change single fields of it.
\<close>

definition offlineWorld :: world where
  "offlineWorld =
     \<lparr>GEMINI_API_KEY = Some ''key'', GOOGLE_API_KEY = None,
      IMAGE_MODEL_ID = None, VIDEO_MODEL_ID = None,
      imagePresets = Map.empty, videoPresets = Map.empty,
      generateContent = (\<lambda>request. Inl ''fetch failed''),
      JSON_parse = (\<lambda>s. if s = ''[]'' then Some (JArr []) else None),
      parseConfig = (\<lambda>s. Inl ''Unexpected end of JSON input''),
      toBase64 = (\<lambda>b. []),
      imageBackend = (\<lambda>k request. Inl ''fetch failed''),
      videoBackend = (\<lambda>request. Inl ''fetch failed''),
      fileStamp = (\<lambda>k. ''0_x'')\<rparr>"


text \<open>Worlds for the variation generator.\<close>

definition emptyArrayWorld :: world where
  "emptyArrayWorld = offlineWorld\<lparr>generateContent := (\<lambda>request. Inr (Some ''[]''))\<rparr>"

definition fencedReply :: string where
  "fencedReply = fence @ ''json\<newline>[]\<newline>'' @ fence"

definition fencedArrayWorld :: world where
  "fencedArrayWorld = offlineWorld\<lparr>generateContent := (\<lambda>request. Inr (Some fencedReply))\<rparr>"

definition proseWorld :: world where
  "proseWorld = offlineWorld\<lparr>generateContent := (\<lambda>request. Inr (Some ''Sure! Here you go.''))\<rparr>"

definition objectWorld :: world where
  "objectWorld =
     offlineWorld\<lparr>generateContent := (\<lambda>request. Inr (Some ''{}'')),
                  JSON_parse := (\<lambda>s. if s = ''{}'' then Some (JObj []) else None)\<rparr>"

definition noKeyWorld :: world where
  "noKeyWorld = offlineWorld\<lparr>GEMINI_API_KEY := None\<rparr>"

section \<open>Observations on a run\<close>

text \<open>
  A terminal event is a result or an error event; \<open>statusProgress\<close> reads the progress
  values of the status events, in order.
\<close>

fun isTerminal :: "event \<Rightarrow> bool" where
  "isTerminal (StatusEvent message progress) = False"
| "isTerminal (ImageResultEvent v m) = True"
| "isTerminal (VideoResultEvent v m) = True"
| "isTerminal (ErrorEvent message) = True"

fun isImageResult :: "event \<Rightarrow> bool" where
  "isImageResult (ImageResultEvent v m) = True"
| "isImageResult e = False"

fun statusProgress :: "event list \<Rightarrow> int list" where
  "statusProgress [] = []"
| "statusProgress (StatusEvent message progress # es) = progress # statusProgress es"
| "statusProgress (e # es) = statusProgress es"


section \<open>Shapes of a run\<close>

text \<open>What a run of the loop from unit \<open>i\<close> does, for the number \<open>n\<close> of units it starts.\<close>

definition loopRan ::
    "world \<Rightarrow> GenerationConfig \<Rightarrow> buffer list \<Rightarrow> string \<Rightarrow> json \<Rightarrow> int \<Rightarrow> nat \<Rightarrow> nat \<Rightarrow>
     run \<Rightarrow> run \<Rightarrow> bool" where
  "loopRan w config up sp specs N i n r r' =
     (events r' = events r @ map (\<lambda>j. StatusEvent (loopMessage j N) (progressBase j N)) [i ..< i + n] \<and>
      imageCalls r' = imageCalls r @ map (unitParams config up sp specs) [i ..< i + n] \<and>
      videoCalls r' = videoCalls r \<and> closed r' = closed r \<and>
      int (i + n) \<le> max (int i) N \<and>
      (\<forall>j. i \<le> j \<and> Suc j < i + n \<longrightarrow>
           (\<exists>g. generateImage w j (unitParams config up sp specs j) = Inr g)))"

definition progressBounded :: "int \<Rightarrow> run \<Rightarrow> bool" where
  "progressBounded b r =
     (sorted (statusProgress (events r)) \<and> (\<forall>p \<in> set (statusProgress (events r)). p \<le> b))"

text \<open>The events before the loop of the image branch: status 20, and status 22 when the
  variation specs are asked for.\<close>

definition preRan :: "run \<Rightarrow> run \<Rightarrow> bool" where
  "preRan r r1 =
     ((\<exists>c. events r1 = events r @ [StatusEvent c 20] \<or>
           (\<exists>v. events r1 = events r @ [StatusEvent c 20, StatusEvent v 22])) \<and>
      imageCalls r1 = imageCalls r \<and> videoCalls r1 = videoCalls r \<and> closed r1 = closed r)"

text \<open>A step that ends with the one terminal event it adds, and leaves the stream open
  or closed as it was.\<close>

definition oneTerminal :: "run \<Rightarrow> run \<Rightarrow> bool" where
  "oneTerminal r r' =
     (isTerminal (last (events r')) \<and>
      filter isTerminal (events r') = filter isTerminal (events r) @ [last (events r')] \<and>
      closed r' = closed r)"

text \<open>A step that was left by a throw: no terminal event, no call and no close added.\<close>

definition thrownFrom :: "run \<Rightarrow> run \<Rightarrow> bool" where
  "thrownFrom r r' =
     (filter isTerminal (events r') = filter isTerminal (events r) \<and> closed r' = closed r \<and>
      imageCalls r' = imageCalls r \<and> videoCalls r' = videoCalls r)"

text \<open>A request that came to the end of its branch.\<close>

definition completedFrom :: "run \<Rightarrow> run \<Rightarrow> bool" where
  "completedFrom r r' =
     (closed r' \<and> last (events r') = StatusEvent ''Complete!'' 100 \<and>
      (\<exists>t. isTerminal t \<and> filter isTerminal (events r') = filter isTerminal (events r) @ [t]))"

text \<open>What the body of the outer \<open>try\<close> leaves, from the empty stream.\<close>

definition abortedRun :: "run \<Rightarrow> bool" where
  "abortedRun r =
     (filter isTerminal (events r) = [] \<and> \<not> closed r \<and> progressBounded 25 r \<and>
      imageCalls r = [] \<and> videoCalls r = [])"

definition endedRun :: "run \<Rightarrow> bool" where
  "endedRun r =
     (closed r \<and> length (filter isTerminal (events r)) = 1 \<and>
      sorted (statusProgress (events r)) \<and>
      (last (events r) = StatusEvent ''Complete!'' 100 \<or>
       events r = [ErrorEvent ''No configuration provided'']))"


section \<open>Sample requests\<close>

text \<open>The configuration that \<open>JSON.parse\<close> reads from the text \<open>{}\<close>: every field absent.\<close>

definition emptyConfig :: GenerationConfig where
  "emptyConfig =
     \<lparr>cfg_protocolType = None, cfg_trendType = None, cfg_brandGuidelines = None,
      cfg_primaryColor = None, cfg_secondaryColor = None, cfg_aspectRatio = None,
      cfg_variantCount = None, cfg_varianceFactors = None, cfg_useAIStoryline = False,
      cfg_narrative = None, cfg_videoLength = None, cfg_useImageInteraction = False,
      cfg_imageInteractionDescription = None, cfg_creativeTrendType = None,
      cfg_selectedPreset = None, cfg_aiTrendDescription = None, cfg_imagePurposes = None,
      cfg_customPurposeDescriptions = None, cfg_narrativeTemplate = None,
      cfg_videoCreativeTrendType = None, cfg_selectedVideoPreset = None,
      cfg_aiVideoTrendDescription = None\<rparr>"

text \<open>
  A world that reads one configuration text, and a request that carries that text and
  no file.
\<close>

definition readingWorld :: "string \<Rightarrow> GenerationConfig \<Rightarrow> world" where
  "readingWorld configText config =
     offlineWorld\<lparr>parseConfig :=
       (\<lambda>s. if s = configText then Inr (Some config) else Inl ''Unexpected end of JSON input'')\<rparr>"

definition configRequest :: "string \<Rightarrow> request" where
  "configRequest configText = \<lparr>rq_formData = Inr [(''config'', TextValue configText)]\<rparr>"

text \<open>Two image variants with no variance factor; the vendor returns a PNG part.\<close>

definition twoImagesText :: string where
  "twoImagesText = ''{\"protocolType\":\"IMAGE\",\"variantCount\":2}''"

definition twoImagesConfig :: GenerationConfig where
  "twoImagesConfig = emptyConfig\<lparr>cfg_protocolType := Some ''IMAGE'', cfg_variantCount := Some 2\<rparr>"

definition pngPart :: responsePart where
  "pngPart = \<lparr>rp_inlineData = Some (Some ''image/png'', Some ''iVBORw0KGgo=''), rp_text = None\<rparr>"

definition secondCallFails :: world where
  "secondCallFails =
     (readingWorld twoImagesText twoImagesConfig)\<lparr>imageBackend :=
        (\<lambda>k request. if k = 0 then Inr (Some [pngPart]) else Inl ''429 quota exceeded'')\<rparr>"


text \<open>An image request with an AI trend description, and a video request with one.\<close>

definition aiTrendText :: string where
  "aiTrendText =
     ''{\"protocolType\":\"IMAGE\",\"creativeTrendType\":\"ai\",\"aiTrendDescription\":\"neon\"}''"

definition aiTrendConfig :: GenerationConfig where
  "aiTrendConfig =
     emptyConfig\<lparr>cfg_protocolType := Some ''IMAGE'', cfg_creativeTrendType := Some ''ai'',
                 cfg_aiTrendDescription := Some ''neon''\<rparr>"



text \<open>A video request that asks for ten seconds.\<close>

definition tenSecondsConfig :: GenerationConfig where
  "tenSecondsConfig = emptyConfig\<lparr>cfg_protocolType := Some ''VIDEO'', cfg_videoLength := Some ''10s''\<rparr>"

text \<open>The image request with an AI trend description, sent with one product image.\<close>

definition aiTrendUpload :: request where
  "aiTrendUpload =
     \<lparr>rq_formData = Inr [(''productImage_0'', FileValue [137, 80, 78, 71]),
                         (''config'', TextValue aiTrendText)]\<rparr>"

section \<open>The fallback variations\<close>

lemma fallbackLoop_eq:
  "fallbackLoop count factors i variations =
     variations @ map (fallbackEntry factors) [i ..< nat count]"
proof (induction count factors i variations rule: fallbackLoop.induct)
  case (1 count factors i variations)
  show ?case
  proof (cases "int i < count")
    case True
    then have "i < nat count" by simp
    then have "[i ..< nat count] = i # [Suc i ..< nat count]" by (simp add: upt_conv_Cons)
    with True "1.IH" show ?thesis by (simp add: fallbackLoop.simps [of count factors i])
  next
    case False
    then have "[i ..< nat count] = []" by simp
    with False show ?thesis by (simp add: fallbackLoop.simps [of count factors i])
  qed
qed

lemma generateFallbackVariations_eq:
  "generateFallbackVariations count factors = map (fallbackEntry factors) [0 ..< nat count]"
  by (simp add: generateFallbackVariations_def fallbackLoop_eq)

lemma length_generateFallbackVariations:
  "length (generateFallbackVariations count factors) = nat count"
  by (simp add: generateFallbackVariations_eq)

lemma options_length:
  "length lightingOptions = 5" "length environmentOptions = 5"
  "length cameraOptions = 5" "length materialOptions = 5"
  by (simp_all add: lightingOptions_def environmentOptions_def cameraOptions_def
      materialOptions_def)

lemma option_nonempty:
  assumes "i < 5"
  shows "lightingOptions ! i \<noteq> [] \<and> environmentOptions ! i \<noteq> [] \<and>
         cameraOptions ! i \<noteq> [] \<and> materialOptions ! i \<noteq> []"
proof -
  from assms consider "i = 0" | "i = 1" | "i = 2" | "i = 3" | "i = 4" by linarith
  then show ?thesis
    by cases (simp_all add: lightingOptions_def environmentOptions_def cameraOptions_def
        materialOptions_def)
qed

lemma fallbackEntry_nonempty:
  "lighting (fallbackEntry factors i) \<noteq> [] \<and> environment (fallbackEntry factors i) \<noteq> [] \<and>
   cameraAngle (fallbackEntry factors i) \<noteq> [] \<and> materials (fallbackEntry factors i) \<noteq> []"
  using option_nonempty [of "i mod 5"] by (simp add: fallbackEntry_def options_length)

lemma upt_two: "[0 ..< (2::nat)] = [0, Suc 0]"
  by (simp add: numeral_2_eq_2)

text \<open>
  C6. For every count \<open>k \<ge> 1\<close> and every factor list, the deterministic fallback has
  exactly \<open>k\<close> entries; in entry \<open>i\<close> each requested factor's field is the phrase at
  index \<open>i mod 5\<close> of that factor's five-item list, each unrequested factor's field is its
  fixed generic phrase, and all four fields are non-empty. In particular, for
  \<open>variantCount = 3\<close> and \<open>varianceFactors = ["lighting"]\<close>, when the AI call throws,
  \<open>generateVariationSpecs\<close> returns exactly two entries, with the lighting phrases of
  indices 0 and 1 and the generic phrases in the three other fields.
\<close>

theorem fallback_variations:
  "1 \<le> k \<Longrightarrow>
     length (generateFallbackVariations k factors) = nat k \<and>
     (\<forall>i < nat k.
        lighting (generateFallbackVariations k factors ! i) =
          (if ''lighting'' \<in> set factors then lightingOptions ! (i mod 5)
           else ''standard studio lighting'') \<and>
        environment (generateFallbackVariations k factors ! i) =
          (if ''environment'' \<in> set factors then environmentOptions ! (i mod 5)
           else ''clean studio background'') \<and>
        cameraAngle (generateFallbackVariations k factors ! i) =
          (if ''camera-angle'' \<in> set factors then cameraOptions ! (i mod 5)
           else ''standard product angle'') \<and>
        materials (generateFallbackVariations k factors ! i) =
          (if ''materials'' \<in> set factors then materialOptions ! (i mod 5)
           else ''natural product materials'') \<and>
        lighting (generateFallbackVariations k factors ! i) \<noteq> [] \<and>
        environment (generateFallbackVariations k factors ! i) \<noteq> [] \<and>
        cameraAngle (generateFallbackVariations k factors ! i) \<noteq> [] \<and>
        materials (generateFallbackVariations k factors ! i) \<noteq> []) \<and>
     (getClient w = Inr client \<and>
      generateContent w (variationSpecsRequest base brand [''lighting''] 3) = Inl e \<longrightarrow>
      generateVariationSpecs w base brand [''lighting''] 3 =
        Inr (JArr
          [specJson \<lparr>lighting = lightingOptions ! 0,
                     environment = ''clean studio background'',
                     cameraAngle = ''standard product angle'',
                     materials = ''natural product materials''\<rparr>,
           specJson \<lparr>lighting = lightingOptions ! 1,
                     environment = ''clean studio background'',
                     cameraAngle = ''standard product angle'',
                     materials = ''natural product materials''\<rparr>]))"
proof (intro conjI allI impI)
  show "length (generateFallbackVariations k factors) = nat k"
    by (rule length_generateFallbackVariations)
next
  fix i assume "i < nat k"
  then have nth: "generateFallbackVariations k factors ! i = fallbackEntry factors i"
    by (simp add: generateFallbackVariations_eq)
  show "lighting (generateFallbackVariations k factors ! i) =
          (if ''lighting'' \<in> set factors then lightingOptions ! (i mod 5)
           else ''standard studio lighting'')"
    by (simp add: nth fallbackEntry_def options_length)
  show "environment (generateFallbackVariations k factors ! i) =
          (if ''environment'' \<in> set factors then environmentOptions ! (i mod 5)
           else ''clean studio background'')"
    by (simp add: nth fallbackEntry_def options_length)
  show "cameraAngle (generateFallbackVariations k factors ! i) =
          (if ''camera-angle'' \<in> set factors then cameraOptions ! (i mod 5)
           else ''standard product angle'')"
    by (simp add: nth fallbackEntry_def options_length)
  show "materials (generateFallbackVariations k factors ! i) =
          (if ''materials'' \<in> set factors then materialOptions ! (i mod 5)
           else ''natural product materials'')"
    by (simp add: nth fallbackEntry_def options_length)
  show "lighting (generateFallbackVariations k factors ! i) \<noteq> []"
    using fallbackEntry_nonempty [of factors i] by (simp add: nth)
  show "environment (generateFallbackVariations k factors ! i) \<noteq> []"
    using fallbackEntry_nonempty [of factors i] by (simp add: nth)
  show "cameraAngle (generateFallbackVariations k factors ! i) \<noteq> []"
    using fallbackEntry_nonempty [of factors i] by (simp add: nth)
  show "materials (generateFallbackVariations k factors ! i) \<noteq> []"
    using fallbackEntry_nonempty [of factors i] by (simp add: nth)
next
  assume a: "getClient w = Inr client \<and>
      generateContent w (variationSpecsRequest base brand [''lighting''] 3) = Inl e"
  show "generateVariationSpecs w base brand [''lighting''] 3 =
        Inr (JArr
          [specJson \<lparr>lighting = lightingOptions ! 0,
                     environment = ''clean studio background'',
                     cameraAngle = ''standard product angle'',
                     materials = ''natural product materials''\<rparr>,
           specJson \<lparr>lighting = lightingOptions ! 1,
                     environment = ''clean studio background'',
                     cameraAngle = ''standard product angle'',
                     materials = ''natural product materials''\<rparr>])"
    using a
    by (simp add: generateVariationSpecs_def generateFallbackVariations_eq upt_two
        fallbackEntry_def options_length)
qed

lemma offlineWorld_client: "getClient offlineWorld = Inr ''key''"
  by (simp add: getClient_def getApiKey_def offlineWorld_def truthy_def)

theorem fallback_variations_witness:
  "length (generateFallbackVariations 2 [''lighting'']) = 2 \<and>
   lighting (generateFallbackVariations 2 [''lighting''] ! 1) =
     ''dramatic studio lighting with high contrast'' \<and>
   environment (generateFallbackVariations 2 [''lighting''] ! 1) = ''clean studio background'' \<and>
   generateVariationSpecs offlineWorld ''Preset: x'' [] [''lighting''] 3 =
     Inr (JArr
       [specJson \<lparr>lighting = ''soft natural lighting with diffused shadows'',
                  environment = ''clean studio background'',
                  cameraAngle = ''standard product angle'',
                  materials = ''natural product materials''\<rparr>,
        specJson \<lparr>lighting = ''dramatic studio lighting with high contrast'',
                  environment = ''clean studio background'',
                  cameraAngle = ''standard product angle'',
                  materials = ''natural product materials''\<rparr>])"
proof -
  have k: "(1::int) \<le> 2" by simp
  have call: "getClient offlineWorld = Inr ''key'' \<and>
      generateContent offlineWorld (variationSpecsRequest ''Preset: x'' [] [''lighting''] 3) =
        Inl ''fetch failed''"
    by (simp add: offlineWorld_client) (simp add: offlineWorld_def)
  note t = fallback_variations [OF k, of "[''lighting'']" offlineWorld "''key''" "''Preset: x''" "[]"
      "''fetch failed''"]
  from t have len: "length (generateFallbackVariations 2 [''lighting'']) = nat 2"
    by (rule conjunct1)
  from t have "\<forall>i < nat 2.
        lighting (generateFallbackVariations 2 [''lighting''] ! i) =
          (if ''lighting'' \<in> set [''lighting''] then lightingOptions ! (i mod 5)
           else ''standard studio lighting'') \<and>
        environment (generateFallbackVariations 2 [''lighting''] ! i) =
          (if ''environment'' \<in> set [''lighting''] then environmentOptions ! (i mod 5)
           else ''clean studio background'') \<and>
        cameraAngle (generateFallbackVariations 2 [''lighting''] ! i) =
          (if ''camera-angle'' \<in> set [''lighting''] then cameraOptions ! (i mod 5)
           else ''standard product angle'') \<and>
        materials (generateFallbackVariations 2 [''lighting''] ! i) =
          (if ''materials'' \<in> set [''lighting''] then materialOptions ! (i mod 5)
           else ''natural product materials'') \<and>
        lighting (generateFallbackVariations 2 [''lighting''] ! i) \<noteq> [] \<and>
        environment (generateFallbackVariations 2 [''lighting''] ! i) \<noteq> [] \<and>
        cameraAngle (generateFallbackVariations 2 [''lighting''] ! i) \<noteq> [] \<and>
        materials (generateFallbackVariations 2 [''lighting''] ! i) \<noteq> []"
    by (rule conjunct2 [THEN conjunct1])
  then have one: "lighting (generateFallbackVariations 2 [''lighting''] ! 1) =
          (if ''lighting'' \<in> set [''lighting''] then lightingOptions ! (1 mod 5)
           else ''standard studio lighting'') \<and>
        environment (generateFallbackVariations 2 [''lighting''] ! 1) =
          (if ''environment'' \<in> set [''lighting''] then environmentOptions ! (1 mod 5)
           else ''clean studio background'')"
    by simp
  from t call have run: "generateVariationSpecs offlineWorld ''Preset: x'' [] [''lighting''] 3 =
        Inr (JArr
          [specJson \<lparr>lighting = lightingOptions ! 0,
                     environment = ''clean studio background'',
                     cameraAngle = ''standard product angle'',
                     materials = ''natural product materials''\<rparr>,
           specJson \<lparr>lighting = lightingOptions ! 1,
                     environment = ''clean studio background'',
                     cameraAngle = ''standard product angle'',
                     materials = ''natural product materials''\<rparr>])"
    by (rule conjunct2 [THEN conjunct2, THEN mp])
  from len one run show ?thesis
    by (simp add: lightingOptions_def)
qed

section \<open>Sections of the image prompt\<close>















section \<open>Unknown preset ids\<close>

text \<open>
  An id that is neither in the catalog nor a member of \<open>Object.prototype\<close> adds no
  creative-trend section, in either builder.
\<close>

lemma unknown_preset_omitted:
  assumes "presets ident = None" and "ident \<notin> set objectPrototypeKeys"
  shows "creativeTrendSections presets
           (Some \<lparr>trend_type = Preset, presetId = Some ident, customPrompt = c\<rparr>) = []"
  using assms by (simp add: creativeTrendSections_def getProperty_def)

text \<open>
  C8 (evaluation at the failing input). For the preset id \<open>constructor\<close>, which no
  catalog entry carries, the lookup finds \<open>Object.prototype.constructor\<close>: both builders
  push a creative-trend section whose body is the text \<open>undefined\<close>.
\<close>

theorem inherited_preset_section:
  "creativeTrendText ''undefined'' \<in>
     set (structuredSections (presets(''constructor'' := None))
            (p\<lparr>sp_creativeTrend :=
                 Some \<lparr>trend_type = Preset, presetId = Some ''constructor'', customPrompt = None\<rparr>\<rparr>)) \<and>
   creativeTrendText ''undefined'' \<in>
     set (videoSections (presets(''constructor'' := None))
            (v\<lparr>vp_creativeTrend :=
                 Some \<lparr>trend_type = Preset, presetId = Some ''constructor'', customPrompt = None\<rparr>\<rparr>)) \<and>
   creativeTrendText ''undefined'' = ''CREATIVE TREND:\<newline>undefined''"
  by (simp add: structuredSections_def videoSections_def creativeTrendSections_def
      getProperty_def objectPrototypeKeys_def truthy_def creativeTrendText_def)

section \<open>The video client's request\<close>


section \<open>The variation generator\<close>

lemma sample_clients:
  "getClient emptyArrayWorld = Inr ''key''" "getClient fencedArrayWorld = Inr ''key''"
  "getClient proseWorld = Inr ''key''" "getClient objectWorld = Inr ''key''"
  "getClient noKeyWorld = Inl ''GOOGLE_API_KEY or GEMINI_API_KEY must be set in .env.local''"
  by (simp_all add: getClient_def getApiKey_def offlineWorld_def truthy_def emptyArrayWorld_def
      fencedArrayWorld_def proseWorld_def objectWorld_def noKeyWorld_def)

lemma trim_samples:
  "trim ''[]'' = ''[]''" "trim ''{}'' = ''{}''" "trim ''Sure! Here you go.'' = ''Sure! Here you go.''"
  "trim ''[]\<newline>'' = ''[]''"
  by (simp_all add: trim_def isWhiteSpace_def)

lemma cleanJson_samples:
  "cleanJson (Some ''[]'') = ''[]''" "cleanJson (Some ''{}'') = ''{}''"
  "cleanJson (Some ''Sure! Here you go.'') = ''Sure! Here you go.''"
  by (simp_all add: cleanJson_def orElse_def trim_samples fence_def)




lemma generateVariationSpecs_calls:
  assumes "1 < variantCount" and "varianceFactors \<noteq> []" and "getClient w = Inr client"
  shows "generateVariationSpecs w base brand varianceFactors variantCount =
     (case generateContent w (variationSpecsRequest base brand varianceFactors variantCount) of
        Inl e \<Rightarrow>
          Inr (JArr (map specJson (generateFallbackVariations (variantCount - 1) varianceFactors)))
      | Inr text \<Rightarrow>
          (case JSON_parse w (cleanJson text) of
             None \<Rightarrow>
               Inr (JArr (map specJson
                      (generateFallbackVariations (variantCount - 1) varianceFactors)))
           | Some JNull \<Rightarrow>
               Inr (JArr (map specJson
                      (generateFallbackVariations (variantCount - 1) varianceFactors)))
           | Some variations \<Rightarrow> Inr variations))"
  using assms by (simp add: generateVariationSpecs_def)



text \<open>
  C5, as stated, fails. Without an API key, \<open>getClient()\<close>, which stands before the
  \<open>try\<close>, throws, and the error reaches the caller. And a reply that is valid JSON but
  not an array (here \<open>{}\<close>) is returned as parsed, not replaced by the fallback.
\<close>

theorem variation_specs_raises:
  "generateVariationSpecs noKeyWorld ''Preset: x'' [] [''lighting''] 3 =
     Inl ''GOOGLE_API_KEY or GEMINI_API_KEY must be set in .env.local'' \<and>
   generateVariationSpecs objectWorld ''Preset: x'' [] [''lighting''] 3 = Inr (JObj [])"
  by (simp add: generateVariationSpecs_def sample_clients)
     (simp add: objectWorld_def offlineWorld_def cleanJson_samples)

text \<open>
  C5, amended. \<open>generateVariationSpecs\<close> returns the empty array when
  \<open>variantCount \<le> 1\<close> or no variance factor is given. Otherwise, without an API key the
  missing-key error reaches the caller. With a client it never raises, and when the
  external call throws, or the returned text (fence markers stripped) is invalid JSON, it
  returns the deterministic fallback variations.
\<close>

theorem variation_specs_errors:
  "(variantCount \<le> 1 \<or> varianceFactors = [] \<longrightarrow>
      generateVariationSpecs w base brand varianceFactors variantCount = Inr (JArr [])) \<and>
   (1 < variantCount \<and> varianceFactors \<noteq> [] \<and> getClient w = Inl e \<longrightarrow>
      generateVariationSpecs w base brand varianceFactors variantCount = Inl e) \<and>
   (getClient w = Inr client \<longrightarrow>
      (\<exists>v. generateVariationSpecs w base brand varianceFactors variantCount = Inr v)) \<and>
   (1 < variantCount \<and> varianceFactors \<noteq> [] \<and> getClient w = Inr client \<and>
    (generateContent w (variationSpecsRequest base brand varianceFactors variantCount) = Inl e' \<or>
     generateContent w (variationSpecsRequest base brand varianceFactors variantCount) = Inr text \<and>
     JSON_parse w (cleanJson text) = None) \<longrightarrow>
      generateVariationSpecs w base brand varianceFactors variantCount =
        Inr (JArr (map specJson
               (generateFallbackVariations (variantCount - 1) varianceFactors))))"
proof (intro conjI impI)
  assume "variantCount \<le> 1 \<or> varianceFactors = []"
  then show "generateVariationSpecs w base brand varianceFactors variantCount = Inr (JArr [])"
    by (auto simp: generateVariationSpecs_def)
next
  assume "1 < variantCount \<and> varianceFactors \<noteq> [] \<and> getClient w = Inl e"
  then show "generateVariationSpecs w base brand varianceFactors variantCount = Inl e"
    by (simp add: generateVariationSpecs_def)
next
  assume c: "getClient w = Inr client"
  show "\<exists>v. generateVariationSpecs w base brand varianceFactors variantCount = Inr v"
  proof (cases "1 < variantCount \<and> varianceFactors \<noteq> []")
    case False
    then have "generateVariationSpecs w base brand varianceFactors variantCount = Inr (JArr [])"
      by (auto simp: generateVariationSpecs_def)
    then show ?thesis by blast
  next
    case True
    then have calls: "generateVariationSpecs w base brand varianceFactors variantCount =
     (case generateContent w (variationSpecsRequest base brand varianceFactors variantCount) of
        Inl e \<Rightarrow>
          Inr (JArr (map specJson (generateFallbackVariations (variantCount - 1) varianceFactors)))
      | Inr text \<Rightarrow>
          (case JSON_parse w (cleanJson text) of
             None \<Rightarrow>
               Inr (JArr (map specJson
                      (generateFallbackVariations (variantCount - 1) varianceFactors)))
           | Some JNull \<Rightarrow>
               Inr (JArr (map specJson
                      (generateFallbackVariations (variantCount - 1) varianceFactors)))
           | Some variations \<Rightarrow> Inr variations))"
      using c by (simp add: generateVariationSpecs_calls)
    show ?thesis
      unfolding calls by (simp split: sum.split option.split json.split)
  qed
next
  assume a: "1 < variantCount \<and> varianceFactors \<noteq> [] \<and> getClient w = Inr client \<and>
    (generateContent w (variationSpecsRequest base brand varianceFactors variantCount) = Inl e' \<or>
     generateContent w (variationSpecsRequest base brand varianceFactors variantCount) = Inr text \<and>
     JSON_parse w (cleanJson text) = None)"
  then have "generateVariationSpecs w base brand varianceFactors variantCount =
     (case generateContent w (variationSpecsRequest base brand varianceFactors variantCount) of
        Inl e \<Rightarrow>
          Inr (JArr (map specJson (generateFallbackVariations (variantCount - 1) varianceFactors)))
      | Inr text \<Rightarrow>
          (case JSON_parse w (cleanJson text) of
             None \<Rightarrow>
               Inr (JArr (map specJson
                      (generateFallbackVariations (variantCount - 1) varianceFactors)))
           | Some JNull \<Rightarrow>
               Inr (JArr (map specJson
                      (generateFallbackVariations (variantCount - 1) varianceFactors)))
           | Some variations \<Rightarrow> Inr variations))"
    by (simp add: generateVariationSpecs_calls)
  with a show "generateVariationSpecs w base brand varianceFactors variantCount =
        Inr (JArr (map specJson
               (generateFallbackVariations (variantCount - 1) varianceFactors)))"
    by auto
qed

theorem variation_specs_errors_witness:
  "generateVariationSpecs noKeyWorld ''Preset: x'' [] [''lighting''] 1 = Inr (JArr []) \<and>
   generateVariationSpecs noKeyWorld ''Preset: x'' [] [] 3 = Inr (JArr []) \<and>
   generateVariationSpecs noKeyWorld ''Preset: x'' [] [''lighting''] 3 =
     Inl ''GOOGLE_API_KEY or GEMINI_API_KEY must be set in .env.local'' \<and>
   generateVariationSpecs offlineWorld ''Preset: x'' [] [''lighting''] 3 =
     Inr (JArr (map specJson (generateFallbackVariations 2 [''lighting'']))) \<and>
   generateVariationSpecs proseWorld ''Preset: x'' [] [''lighting''] 3 =
     Inr (JArr (map specJson (generateFallbackVariations 2 [''lighting''])))"
proof -
  note a = variation_specs_errors [of 1 "[''lighting'']" noKeyWorld "''Preset: x''" "[]"]
  note b = variation_specs_errors [of 3 "[]" noKeyWorld "''Preset: x''" "[]"]
  note c = variation_specs_errors [of 3 "[''lighting'']" noKeyWorld "''Preset: x''" "[]"
      "''GOOGLE_API_KEY or GEMINI_API_KEY must be set in .env.local''"]
  note d = variation_specs_errors [of 3 "[''lighting'']" offlineWorld "''Preset: x''" "[]" _
      "''key''" "''fetch failed''"]
  note e = variation_specs_errors [of 3 "[''lighting'']" proseWorld "''Preset: x''" "[]" _
      "''key''" _ "Some ''Sure! Here you go.''"]
  have ha: "(1::int) \<le> 1 \<or> [''lighting''] = []" by simp
  have hb: "(3::int) \<le> 1 \<or> ([]::string list) = []" by simp
  have hc: "(1::int) < 3 \<and> [''lighting''] \<noteq> [] \<and>
      getClient noKeyWorld = Inl ''GOOGLE_API_KEY or GEMINI_API_KEY must be set in .env.local''"
    by (simp add: sample_clients)
  have hd: "(1::int) < 3 \<and> [''lighting''] \<noteq> [] \<and> getClient offlineWorld = Inr ''key'' \<and>
    (generateContent offlineWorld (variationSpecsRequest ''Preset: x'' [] [''lighting''] 3) =
       Inl ''fetch failed'' \<or>
     generateContent offlineWorld (variationSpecsRequest ''Preset: x'' [] [''lighting''] 3) =
       Inr t \<and> JSON_parse offlineWorld (cleanJson t) = None)" for t
    by (simp add: offlineWorld_client) (simp add: offlineWorld_def)
  have he: "(1::int) < 3 \<and> [''lighting''] \<noteq> [] \<and> getClient proseWorld = Inr ''key'' \<and>
    (generateContent proseWorld (variationSpecsRequest ''Preset: x'' [] [''lighting''] 3) =
       Inl e' \<or>
     generateContent proseWorld (variationSpecsRequest ''Preset: x'' [] [''lighting''] 3) =
       Inr (Some ''Sure! Here you go.'') \<and>
     JSON_parse proseWorld (cleanJson (Some ''Sure! Here you go.'')) = None)" for e'
    by (simp add: sample_clients) (simp add: proseWorld_def offlineWorld_def cleanJson_samples)
  from a ha have r1: "generateVariationSpecs noKeyWorld ''Preset: x'' [] [''lighting''] 1 = Inr (JArr [])"
    by (rule conjunct1 [THEN mp])
  from b hb have r2: "generateVariationSpecs noKeyWorld ''Preset: x'' [] [] 3 = Inr (JArr [])"
    by (rule conjunct1 [THEN mp])
  from c hc have r3: "generateVariationSpecs noKeyWorld ''Preset: x'' [] [''lighting''] 3 =
     Inl ''GOOGLE_API_KEY or GEMINI_API_KEY must be set in .env.local''"
    by (rule conjunct2 [THEN conjunct1, THEN mp])
  from d hd have r4: "generateVariationSpecs offlineWorld ''Preset: x'' [] [''lighting''] 3 =
     Inr (JArr (map specJson (generateFallbackVariations (3 - 1) [''lighting''])))"
    by (rule conjunct2 [THEN conjunct2, THEN conjunct2, THEN mp])
  from e he have r5: "generateVariationSpecs proseWorld ''Preset: x'' [] [''lighting''] 3 =
     Inr (JArr (map specJson (generateFallbackVariations (3 - 1) [''lighting''])))"
    by (rule conjunct2 [THEN conjunct2, THEN conjunct2, THEN mp])
  from r1 r2 r3 r4 r5 show ?thesis by simp
qed


section \<open>The request handler\<close>

lemma run_fields [simp]:
  "events (enqueue e r) = events r @ [e]" "closed (enqueue e r) = closed r"
  "imageCalls (enqueue e r) = imageCalls r" "videoCalls (enqueue e r) = videoCalls r"
  "events (sendStatus m p r) = events r @ [StatusEvent m p]" "closed (sendStatus m p r) = closed r"
  "imageCalls (sendStatus m p r) = imageCalls r" "videoCalls (sendStatus m p r) = videoCalls r"
  "events (closeStream r) = events r" "closed (closeStream r) = True"
  "imageCalls (closeStream r) = imageCalls r" "videoCalls (closeStream r) = videoCalls r"
  by (simp_all add: enqueue_def sendStatus_def closeStream_def)

lemma imageLoop_stop:
  "\<not> int i < N \<Longrightarrow> imageLoop w config up sp specs N i results r = (Inr results, r)"
  by (simp add: imageLoop.simps [of w config up sp specs N i results r])

lemma imageLoop_fail:
  "int i < N \<Longrightarrow> generateImage w i (unitParams config up sp specs i) = Inl message \<Longrightarrow>
   imageLoop w config up sp specs N i results r =
     (Inl message,
      (sendStatus (loopMessage i N) (progressBase i N) r)
        \<lparr>imageCalls := imageCalls r @ [unitParams config up sp specs i]\<rparr>)"
  by (simp add: imageLoop.simps [of w config up sp specs N i results r] Let_def)

lemma imageLoop_step:
  "int i < N \<Longrightarrow> generateImage w i (unitParams config up sp specs i) = Inr g \<Longrightarrow>
   imageLoop w config up sp specs N i results r =
     imageLoop w config up sp specs N (Suc i)
       (results @ [\<lparr>fi_filePath = gr_filePath g, fi_fileName = gr_fileName g,
                     fi_mimeType = gr_mimeType g\<rparr>])
       ((sendStatus (loopMessage i N) (progressBase i N) r)
          \<lparr>imageCalls := imageCalls r @ [unitParams config up sp specs i]\<rparr>)"
  by (simp add: imageLoop.simps [of w config up sp specs N i results r] Let_def)

lemma imageLoop_run:
  "imageLoop w config up sp specs N i results r = (res, r') \<Longrightarrow>
   \<exists>n. loopRan w config up sp specs N i n r r' \<and>
       (case res of
          Inl message \<Rightarrow>
            0 < n \<and>
            generateImage w (i + n - 1) (unitParams config up sp specs (i + n - 1)) = Inl message
        | Inr results' \<Rightarrow>
            int (i + n) = max (int i) N \<and> length results' = length results + n \<and>
            (\<exists>g. generateImage w (i + n - 1) (unitParams config up sp specs (i + n - 1)) = Inr g \<or> n = 0))"
proof (induction "nat (N - int i)" arbitrary: i results r)
  case 0
  then have stop: "\<not> int i < N" by simp
  with "0.prems" have "res = Inr results" "r' = r" by (simp_all add: imageLoop_stop)
  with stop show ?case
    by (intro exI [of _ 0]) (auto simp: loopRan_def max_def)
next
  case (Suc m)
  then have go: "int i < N" by simp
  let ?r2 = "(sendStatus (loopMessage i N) (progressBase i N) r)
               \<lparr>imageCalls := imageCalls r @ [unitParams config up sp specs i]\<rparr>"
  show ?case
  proof (cases "generateImage w i (unitParams config up sp specs i)")
    case (Inl message)
    with go Suc.prems have "res = Inl message" "r' = ?r2" by (simp_all add: imageLoop_fail)
    with go Inl show ?thesis
      by (intro exI [of _ 1]) (auto simp: loopRan_def max_def)
  next
    case (Inr g)
    let ?results = "results @ [\<lparr>fi_filePath = gr_filePath g, fi_fileName = gr_fileName g,
                     fi_mimeType = gr_mimeType g\<rparr>]"
    from go Inr Suc.prems have rec: "imageLoop w config up sp specs N (Suc i) ?results ?r2 = (res, r')"
      by (simp add: imageLoop_step)
    from Suc.hyps(2) have m: "m = nat (N - int (Suc i))" by simp
    from Suc.hyps(1) [OF m rec] obtain n where
      ran: "loopRan w config up sp specs N (Suc i) n ?r2 r'" and
      out: "(case res of
          Inl message \<Rightarrow>
            0 < n \<and>
            generateImage w (Suc i + n - 1) (unitParams config up sp specs (Suc i + n - 1)) = Inl message
        | Inr results' \<Rightarrow>
            int (Suc i + n) = max (int (Suc i)) N \<and> length results' = length ?results + n \<and>
            (\<exists>g. generateImage w (Suc i + n - 1) (unitParams config up sp specs (Suc i + n - 1)) = Inr g \<or> n = 0))"
      by blast
    have upt: "[i ..< Suc (i + n)] = i # [Suc i ..< Suc (i + n)]"
      by (simp add: upt_conv_Cons)
    have ran': "loopRan w config up sp specs N i (Suc n) r r'"
      unfolding loopRan_def
    proof (intro conjI allI impI)
      from ran show "events r' = events r @
          map (\<lambda>j. StatusEvent (loopMessage j N) (progressBase j N)) [i ..< i + Suc n]"
        by (simp add: loopRan_def upt del: upt_Suc)
      from ran show "imageCalls r' = imageCalls r @
          map (unitParams config up sp specs) [i ..< i + Suc n]"
        by (simp add: loopRan_def upt del: upt_Suc)
      from ran show "videoCalls r' = videoCalls r" by (simp add: loopRan_def)
      from ran show "closed r' = closed r" by (simp add: loopRan_def)
      from ran go show "int (i + Suc n) \<le> max (int i) N" by (simp add: loopRan_def max_def)
    next
      fix j assume j: "i \<le> j \<and> Suc j < i + Suc n"
      show "\<exists>g. generateImage w j (unitParams config up sp specs j) = Inr g"
      proof (cases "j = i")
        case True
        with Inr show ?thesis by simp
      next
        case False
        with j have "Suc i \<le> j \<and> Suc j < Suc i + n" by simp
        with ran show ?thesis by (simp add: loopRan_def)
      qed
    qed
    show ?thesis
    proof (cases res)
      case (Inl message)
      with out ran' show ?thesis by (intro exI [of _ "Suc n"]) simp
    next
      case res: (Inr results')
      with out go have a: "int (i + Suc n) = max (int i) N" "length results' = length results + Suc n"
        by (simp_all add: max_def)
      from out res Inr have b: "\<exists>g. generateImage w (i + Suc n - 1) (unitParams config up sp specs (i + Suc n - 1)) = Inr g"
        by (cases "n = 0") auto
      from a b res ran' show ?thesis by (intro exI [of _ "Suc n"]) simp
    qed
  qed
qed

lemma statusProgress_append [simp]:
  "statusProgress (xs @ ys) = statusProgress xs @ statusProgress ys"
  by (induction xs rule: statusProgress.induct) simp_all

lemma statusProgress_statuses [simp]:
  "statusProgress (map (\<lambda>j. StatusEvent (m j) (p j)) js) = map p js"
  by (induction js) simp_all

lemma isTerminal_statuses [simp]:
  "filter isTerminal (map (\<lambda>j. StatusEvent (m j) (p j)) js) = []"
  by (induction js) simp_all

lemma pb_status:
  "progressBounded b r \<Longrightarrow> b \<le> p \<Longrightarrow> progressBounded p (sendStatus m p r)"
  by (auto simp: progressBounded_def sorted_append)

lemma pb_mono: "progressBounded b r \<Longrightarrow> b \<le> c \<Longrightarrow> progressBounded c r"
  by (auto simp: progressBounded_def)

lemma pb_terminal:
  "isTerminal e \<Longrightarrow> progressBounded b (enqueue e r) = progressBounded b r"
  by (cases e) (simp_all add: progressBounded_def)

lemma pb_close [simp]: "progressBounded b (closeStream r) = progressBounded b r"
  by (simp add: progressBounded_def)

lemma pb_same_events: "events r' = events r \<Longrightarrow> progressBounded b r' = progressBounded b r"
  by (simp add: progressBounded_def)

lemma div_less_60:
  assumes "0 < (N::int)" and "a < N * 60"
  shows "a div N < 60"
proof -
  have "a = N * (a div N) + a mod N" by simp
  moreover have "0 \<le> a mod N" using assms(1) by simp
  ultimately have "N * (a div N) \<le> a" by linarith
  with assms(2) have "N * (a div N) < N * 60" by linarith
  with assms(1) show ?thesis by (simp add: mult_less_cancel_left_pos)
qed


lemma progressBase_bounds:
  assumes "int j < N"
  shows "25 \<le> progressBase j N" and "progressBase j N \<le> 84"
proof -
  from assms have N: "0 < N" by linarith
  have "0 \<le> (int j * 60) div N" using N by (simp add: pos_imp_zdiv_nonneg_iff)
  then show "25 \<le> progressBase j N" by (simp add: progressBase_def)
  have "int j * 60 < N * 60" using assms by simp
  with N have "(int j * 60) div N < 60" by (rule div_less_60)
  then show "progressBase j N \<le> 84" by (simp add: progressBase_def)
qed

lemma progressBase_mono:
  assumes "j \<le> k" and "int k < N"
  shows "progressBase j N \<le> progressBase k N"
proof -
  from assms have N: "0 < N" by linarith
  from assms(1) have "int j * 60 \<le> int k * 60" by simp
  then have "(int j * 60) div N \<le> (int k * 60) div N" using N by (rule zdiv_mono1)
  then show ?thesis by (simp add: progressBase_def)
qed

lemma loop_progress_sorted:
  assumes "int n \<le> max 0 N"
  shows "sorted (map (\<lambda>j. progressBase j N) [0 ..< n])"
proof -
  have "progressBase j N \<le> progressBase k N" if "j \<le> k" "k < n" for j k
  proof -
    from that assms have "int k < N" by (simp add: max_def split: if_splits)
    with that(1) show ?thesis by (rule progressBase_mono)
  qed
  then show ?thesis
    by (simp add: sorted_iff_nth_mono)
qed

lemma loop_pb:
  assumes ran: "loopRan w config up sp specs N 0 n r r'"
    and pb: "progressBounded b r" and b: "b \<le> 25"
  shows "progressBounded 84 r'"
proof -
  from ran have ev: "statusProgress (events r') =
      statusProgress (events r) @ map (\<lambda>j. progressBase j N) [0 ..< n]"
    and n: "int n \<le> max 0 N"
    by (simp_all add: loopRan_def)
  have in_range: "25 \<le> progressBase j N \<and> progressBase j N \<le> 84" if "j < n" for j
  proof -
    from that n have "int j < N" by (simp add: max_def split: if_splits)
    then show ?thesis by (simp add: progressBase_bounds)
  qed
  from pb have s: "sorted (statusProgress (events r))"
    and le: "\<forall>p \<in> set (statusProgress (events r)). p \<le> b"
    by (simp_all add: progressBounded_def)
  have "sorted (statusProgress (events r'))"
    unfolding ev using s loop_progress_sorted [OF n] le b in_range
    by (fastforce simp: sorted_append)
  moreover have "\<forall>p \<in> set (statusProgress (events r')). p \<le> 84"
    unfolding ev using le b in_range by fastforce
  ultimately show ?thesis by (simp add: progressBounded_def)
qed

lemma loop_terminals:
  "loopRan w config up sp specs N i n r r' \<Longrightarrow>
   filter isTerminal (events r') = filter isTerminal (events r)"
  by (simp add: loopRan_def)

lemma variationStep_run:
  assumes "variationStep w config trend N r = (res, r1)"
  shows "(r1 = r \<or> (\<exists>v. r1 = sendStatus v 22 r))"
proof (cases "N > 1 \<and> (case cfg_varianceFactors config of None \<Rightarrow> False | Some fs \<Rightarrow> length fs > 0)")
  case True
  with assms show ?thesis by (auto simp: variationStep_def Let_def)
next
  case False
  with assms show ?thesis by (auto simp: variationStep_def Let_def)
qed

lemma imageBranch_cases [case_names specsFail loopFail noResult success]:
  fixes w config up sp trend r
  defines "N \<equiv> variantCountOf config"
  obtains
    (specsFail) r1 message where
      "preRan r r1" "imageBranch w config up sp trend r = enqueue (ErrorEvent message) r1"
  | (loopFail) r1 r2 specs n message where
      "preRan r r1" "loopRan w config up sp specs N 0 n r1 r2" "0 < n"
      "generateImage w (n - 1) (unitParams config up sp specs (n - 1)) = Inl message"
      "imageBranch w config up sp trend r = enqueue (ErrorEvent message) r2"
  | (noResult) r1 r2 specs m90 m95 message where
      "preRan r r1" "loopRan w config up sp specs N 0 0 r1 r2"
      "imageBranch w config up sp trend r =
         enqueue (ErrorEvent message) (sendStatus m95 95 (sendStatus m90 90 r2))"
  | (success) r1 r2 specs n results m90 m95 where
      "preRan r r1" "loopRan w config up sp specs N 0 n r1 r2" "0 < n" "int n = N"
      "\<exists>g. generateImage w (n - 1) (unitParams config up sp specs (n - 1)) = Inr g"
      "imageBranch w config up sp trend r =
         enqueue (imageResultEvent config results) (sendStatus m95 95 (sendStatus m90 90 r2))"
proof -
  let ?r0 = "sendStatus ''Connecting to Nano Banana Pro (gemini-3-pro-image)...'' 20 r"
  obtain res1 r1 where step: "variationStep w config trend N ?r0 = (res1, r1)"
    by (cases "variationStep w config trend N ?r0") simp
  from variationStep_run [OF step] have pre: "preRan r r1"
    by (auto simp: preRan_def)
  show thesis
  proof (cases res1)
    case (Inl message)
    with step have "imageBranch w config up sp trend r = enqueue (ErrorEvent message) r1"
      by (simp add: imageBranch_def imageTry_def N_def Let_def)
    with pre show thesis by (rule specsFail)
  next
    case specs: (Inr specs)
    obtain res2 r2 where loop: "imageLoop w config up sp specs N 0 [] r1 = (res2, r2)"
      by (cases "imageLoop w config up sp specs N 0 [] r1") simp
    from imageLoop_run [OF loop] obtain n where
      ran: "loopRan w config up sp specs N 0 n r1 r2" and
      out: "(case res2 of
          Inl message \<Rightarrow>
            0 < n \<and>
            generateImage w (0 + n - 1) (unitParams config up sp specs (0 + n - 1)) = Inl message
        | Inr results' \<Rightarrow>
            int (0 + n) = max (int 0) N \<and> length results' = length ([]::fileInfo list) + n \<and>
            (\<exists>g. generateImage w (0 + n - 1) (unitParams config up sp specs (0 + n - 1)) = Inr g \<or> n = 0))"
      by blast
    show thesis
    proof (cases res2)
      case (Inl message)
      with step specs loop
      have b: "imageBranch w config up sp trend r = enqueue (ErrorEvent message) r2"
        by (simp add: imageBranch_def imageTry_def N_def Let_def)
      from out Inl have "0 < n"
        "generateImage w (n - 1) (unitParams config up sp specs (n - 1)) = Inl message"
        by simp_all
      with pre ran show thesis using b by (rule loopFail)
    next
      case results: (Inr results)
      from out results have n: "int n = max 0 N" "length results = n"
        and last_ok: "(\<exists>g. generateImage w (n - 1) (unitParams config up sp specs (n - 1)) = Inr g) \<or> n = 0"
        by simp_all
      show thesis
      proof (cases "n = 0")
        case True
        with n have "results = []" by simp
        with step specs loop results
        have b: "imageBranch w config up sp trend r =
            enqueue (ErrorEvent ''Cannot read properties of undefined (reading 'filePath')'')
              (sendStatus ''Preparing for preview...'' 95
                (sendStatus (numberText N @ '' image(s) generated successfully!'') 90 r2))"
          by (simp add: imageBranch_def imageTry_def finishImages_def N_def Let_def)
        from ran True have "loopRan w config up sp specs N 0 0 r1 r2" by simp
        with pre show thesis using b by (rule noResult)
      next
        case False
        with n have ne: "results \<noteq> []" and pos: "0 < n" and nN: "int n = N"
          by (auto simp: max_def split: if_splits)
        from ne step specs loop results
        have b: "imageBranch w config up sp trend r =
            enqueue (imageResultEvent config results)
              (sendStatus ''Preparing for preview...'' 95
                (sendStatus (numberText N @ '' image(s) generated successfully!'') 90 r2))"
          by (simp add: imageBranch_def imageTry_def finishImages_def N_def Let_def)
        from last_ok False
        have ok: "\<exists>g. generateImage w (n - 1) (unitParams config up sp specs (n - 1)) = Inr g"
          by simp
        from pre ran pos nN ok b show thesis by (rule success)
      qed
    qed
  qed
qed

lemma isTerminal_imageResultEvent [simp]:
  "isTerminal (imageResultEvent config results)" "isImageResult (imageResultEvent config results)"
  by (simp_all add: imageResultEvent_def)

lemma isTerminal_videoResultEvent [simp]:
  "isTerminal (videoResultEvent config anchors result)"
  "\<not> isImageResult (videoResultEvent config anchors result)"
  by (simp_all add: videoResultEvent_def)

lemma preRan_terminals:
  "preRan r r1 \<Longrightarrow> filter isTerminal (events r1) = filter isTerminal (events r) \<and> closed r1 = closed r"
  by (auto simp: preRan_def)

lemma pb_append:
  assumes "events r' = events r @ es" and "progressBounded b r"
    and "sorted (statusProgress es)"
    and "\<forall>p \<in> set (statusProgress es). b \<le> p \<and> p \<le> c" and "b \<le> c"
  shows "progressBounded c r'"
  using assms by (fastforce simp: progressBounded_def sorted_append)

lemma preRan_pb:
  assumes "preRan r r1" and "progressBounded b r" and "b \<le> 20"
  shows "progressBounded 22 r1"
proof -
  from assms(1) obtain es where es: "events r1 = events r @ es"
    and shape: "statusProgress es = [20] \<or> statusProgress es = [20, 22]"
    by (auto simp: preRan_def)
  from shape have "sorted (statusProgress es)"
    and "\<forall>p \<in> set (statusProgress es). b \<le> p \<and> p \<le> 22"
    using assms(3) by auto
  with es assms(2) show ?thesis using assms(3) by (intro pb_append [of r1 r es b 22]) simp_all
qed

lemma pb_two_status:
  assumes "progressBounded b r" and "b \<le> p" and "p \<le> q"
  shows "progressBounded q (sendStatus m2 q (sendStatus m1 p r))"
proof -
  from assms(1,2) have "progressBounded p (sendStatus m1 p r)" by (rule pb_status)
  then show ?thesis using assms(3) by (rule pb_status)
qed

lemma loopRan_closed: "loopRan w config up sp specs N i n r r' \<Longrightarrow> closed r' = closed r"
  by (simp add: loopRan_def)

lemma imageBranch_oneTerminal: "oneTerminal r (imageBranch w config up sp trend r)"
proof (cases w config up sp trend r rule: imageBranch_cases)
  case (specsFail r1 message)
  then show ?thesis by (simp add: oneTerminal_def preRan_terminals)
next
  case (loopFail r1 r2 specs n message)
  then show ?thesis by (simp add: oneTerminal_def preRan_terminals loop_terminals loopRan_closed)
next
  case (noResult r1 r2 specs m90 m95 message)
  then show ?thesis by (simp add: oneTerminal_def preRan_terminals loop_terminals loopRan_closed)
next
  case (success r1 r2 specs n results m90 m95)
  then show ?thesis by (simp add: oneTerminal_def preRan_terminals loop_terminals loopRan_closed)
qed

lemma imageBranch_pb:
  assumes "progressBounded b r" and "b \<le> 20"
  shows "progressBounded 95 (imageBranch w config up sp trend r)"
proof (cases w config up sp trend r rule: imageBranch_cases)
  case (specsFail r1 message)
  from preRan_pb [OF specsFail(1) assms] have "progressBounded 95 r1" by (rule pb_mono) simp
  with specsFail show ?thesis by (simp add: pb_terminal)
next
  case (loopFail r1 r2 specs n message)
  from preRan_pb [OF loopFail(1) assms] have "progressBounded 22 r1" .
  from loop_pb [OF loopFail(2) this] have "progressBounded 95 r2" by (simp add: pb_mono)
  with loopFail show ?thesis by (simp add: pb_terminal)
next
  case (noResult r1 r2 specs m90 m95 message)
  from preRan_pb [OF noResult(1) assms] have "progressBounded 22 r1" .
  from loop_pb [OF noResult(2) this] have "progressBounded 84 r2" by simp
  then have "progressBounded 95 (sendStatus m95 95 (sendStatus m90 90 r2))"
    by (rule pb_two_status) simp_all
  with noResult show ?thesis by (simp add: pb_terminal)
next
  case (success r1 r2 specs n results m90 m95)
  from preRan_pb [OF success(1) assms] have "progressBounded 22 r1" .
  from loop_pb [OF success(2) this] have "progressBounded 84 r2" by simp
  then have "progressBounded 95 (sendStatus m95 95 (sendStatus m90 90 r2))"
    by (rule pb_two_status) simp_all
  with success show ?thesis by (simp add: pb_terminal)
qed

lemma videoDispatch_oneTerminal: "oneTerminal r (videoDispatch w config anchors trend r)"
  by (cases "generateVideo w (videoParams w config anchors trend)")
     (simp_all add: videoDispatch_def oneTerminal_def Let_def)

lemma videoDispatch_pb:
  assumes "progressBounded b r" and "b \<le> 30"
  shows "progressBounded 95 (videoDispatch w config anchors trend r)"
proof -
  let ?r2 = "sendStatus ''Generating video loop (this may take a few minutes)...'' 40
               (sendStatus ''Building structured video prompt...'' 30 r)"
  let ?r3 = "?r2\<lparr>videoCalls := videoCalls ?r2 @ [videoParams w config anchors trend]\<rparr>"
  from assms have "progressBounded 40 ?r2" by (rule pb_two_status) simp
  then have r3: "progressBounded 40 ?r3" by (simp add: progressBounded_def)
  show ?thesis
  proof (cases "generateVideo w (videoParams w config anchors trend)")
    case (Inl message)
    from r3 have "progressBounded 95 ?r3" by (rule pb_mono) simp
    with Inl show ?thesis by (simp add: videoDispatch_def Let_def pb_terminal)
  next
    case (Inr result)
    from r3 have "progressBounded 95 (sendStatus ''Preparing for preview...'' 95
        (sendStatus ''Video generated successfully!'' 90 ?r3))"
      by (rule pb_two_status) simp_all
    with Inr show ?thesis by (simp add: videoDispatch_def Let_def pb_terminal)
  qed
qed

lemma videoDispatch_calls:
  "videoCalls (videoDispatch w config anchors trend r) =
     videoCalls r @ [videoParams w config anchors trend] \<and>
   imageCalls (videoDispatch w config anchors trend r) = imageCalls r"
  by (cases "generateVideo w (videoParams w config anchors trend)")
     (simp_all add: videoDispatch_def Let_def)

lemma videoBranch_run:
  assumes "videoBranch w config anchors r = (res, r')"
  shows "(case res of Inl message \<Rightarrow> thrownFrom r r' | Inr u \<Rightarrow> oneTerminal r r')"
    and "progressBounded b r \<Longrightarrow> b \<le> 20 \<Longrightarrow>
         (case res of Inl message \<Rightarrow> progressBounded 25 r' | Inr u \<Rightarrow> progressBounded 95 r')"
proof -
  let ?r1 = "sendStatus ''Connecting to Veo 3.1...'' 20 r"
  let ?r2 = "sendStatus ''AI generating video creative trend from your description...'' 25 ?r1"
  have t1: "oneTerminal r (videoDispatch w config anchors t ?r1)" for t
    using videoDispatch_oneTerminal [of ?r1 w config anchors t] by (simp add: oneTerminal_def)
  have t2: "oneTerminal r (videoDispatch w config anchors t ?r2)" for t
    using videoDispatch_oneTerminal [of ?r2 w config anchors t] by (simp add: oneTerminal_def)
  show "(case res of Inl message \<Rightarrow> thrownFrom r r' | Inr u \<Rightarrow> oneTerminal r r')"
  proof (cases "cfg_videoCreativeTrendType config = Some ''ai'' \<and>
            truthy (cfg_aiVideoTrendDescription config)")
    case False
    with assms have "res = Inr ()" "r' = videoDispatch w config anchors None ?r1"
      by (auto simp: videoBranch_def Let_def)
    with t1 show ?thesis by simp
  next
    case True
    show ?thesis
    proof (cases "generateVideoCreativeTrendFromDescription w (the (cfg_aiVideoTrendDescription config))")
      case (Inl message)
      with True assms have "res = Inl message" "r' = ?r2"
        by (auto simp: videoBranch_def Let_def)
      then show ?thesis by (simp add: thrownFrom_def)
    next
      case (Inr t)
      with True assms have "res = Inr ()" "r' = videoDispatch w config anchors (Some t) ?r2"
        by (auto simp: videoBranch_def Let_def)
      with t2 show ?thesis by simp
    qed
  qed
  assume pb: "progressBounded b r" and b: "b \<le> 20"
  then have p1: "progressBounded 20 ?r1" by (rule pb_status)
  then have p2: "progressBounded 25 ?r2" by (rule pb_status) simp
  show "(case res of Inl message \<Rightarrow> progressBounded 25 r' | Inr u \<Rightarrow> progressBounded 95 r')"
  proof (cases "cfg_videoCreativeTrendType config = Some ''ai'' \<and>
            truthy (cfg_aiVideoTrendDescription config)")
    case False
    with assms have "res = Inr ()" "r' = videoDispatch w config anchors None ?r1"
      by (auto simp: videoBranch_def Let_def)
    with videoDispatch_pb [OF p1] show ?thesis by simp
  next
    case True
    show ?thesis
    proof (cases "generateVideoCreativeTrendFromDescription w (the (cfg_aiVideoTrendDescription config))")
      case (Inl message)
      with True assms have "res = Inl message" "r' = ?r2"
        by (auto simp: videoBranch_def Let_def)
      with p2 show ?thesis by simp
    next
      case (Inr t)
      with True assms have "res = Inr ()" "r' = videoDispatch w config anchors (Some t) ?r2"
        by (auto simp: videoBranch_def Let_def)
      with videoDispatch_pb [OF p2] show ?thesis by simp
    qed
  qed
qed

lemma imageBranch_videoCalls: "videoCalls (imageBranch w config up sp trend r) = videoCalls r"
proof (cases w config up sp trend r rule: imageBranch_cases)
  case (specsFail r1 message)
  then show ?thesis by (simp add: preRan_def)
next
  case (loopFail r1 r2 specs n message)
  then show ?thesis by (simp add: preRan_def loopRan_def)
next
  case (noResult r1 r2 specs m90 m95 message)
  then show ?thesis by (simp add: preRan_def loopRan_def)
next
  case (success r1 r2 specs n results m90 m95)
  then show ?thesis by (simp add: preRan_def loopRan_def)
qed

lemma videoBranch_calls:
  assumes "videoBranch w config anchors r = (res, r')"
  shows "videoCalls r' = videoCalls r \<or>
         (\<exists>t. videoCalls r' = videoCalls r @ [videoParams w config anchors t])"
proof (cases "cfg_videoCreativeTrendType config = Some ''ai'' \<and>
          truthy (cfg_aiVideoTrendDescription config)")
  case False
  with assms have "r' = videoDispatch w config anchors None
      (sendStatus ''Connecting to Veo 3.1...'' 20 r)"
    by (auto simp: videoBranch_def Let_def)
  then show ?thesis by (simp add: videoDispatch_calls) blast
next
  case True
  show ?thesis
  proof (cases "generateVideoCreativeTrendFromDescription w (the (cfg_aiVideoTrendDescription config))")
    case (Inl message)
    with True assms show ?thesis by (auto simp: videoBranch_def Let_def)
  next
    case (Inr t)
    with True assms have "r' = videoDispatch w config anchors (Some t)
      (sendStatus ''AI generating video creative trend from your description...'' 25
        (sendStatus ''Connecting to Veo 3.1...'' 20 r))"
      by (auto simp: videoBranch_def Let_def)
    then show ?thesis by (simp add: videoDispatch_calls) blast
  qed
qed

lemma oneTerminal_completed:
  assumes "oneTerminal r1 r2" and "filter isTerminal (events r1) = filter isTerminal (events r)"
  shows "completedFrom r (closeStream (sendStatus ''Complete!'' 100 r2))"
  using assms by (auto simp: oneTerminal_def completedFrom_def)

lemma dispatch_run:
  assumes d: "dispatch w config formData up anchors trend r = (res, r')"
  shows "(case res of Inl message \<Rightarrow> thrownFrom r r' | Inr u \<Rightarrow> completedFrom r r')"
    and "progressBounded b r \<Longrightarrow> b \<le> 15 \<Longrightarrow>
         (case res of Inl message \<Rightarrow> progressBounded 25 r' | Inr u \<Rightarrow> progressBounded 100 r')"
    and "videoCalls r' = videoCalls r \<or>
         (\<exists>t. videoCalls r' = videoCalls r @ [videoParams w config anchors t])"
proof -
  let ?sp = "buildStructuredPrompt (imagePresets w) (structuredPromptParams config formData trend)"
  let ?r1 = "sendStatus ''Applying structured prompt template...'' 15 r"
  have same: "filter isTerminal (events ?r1) = filter isTerminal (events r)" by simp
  show "(case res of Inl message \<Rightarrow> thrownFrom r r' | Inr u \<Rightarrow> completedFrom r r')"
  proof (cases "cfg_protocolType config = Some ''IMAGE''")
    case True
    with d have "res = Inr ()"
      "r' = closeStream (sendStatus ''Complete!'' 100 (imageBranch w config up ?sp trend ?r1))"
      by (auto simp: dispatch_def Let_def)
    with oneTerminal_completed [OF imageBranch_oneTerminal same] show ?thesis by simp
  next
    case False
    obtain res2 r2 where v: "videoBranch w config anchors ?r1 = (res2, r2)"
      by (cases "videoBranch w config anchors ?r1") simp
    show ?thesis
    proof (cases res2)
      case (Inl message)
      with False v d have "res = Inl message" "r' = r2" by (auto simp: dispatch_def Let_def)
      with videoBranch_run(1) [OF v] Inl show ?thesis by (simp add: thrownFrom_def)
    next
      case (Inr u)
      with False v d have "res = Inr ()" "r' = closeStream (sendStatus ''Complete!'' 100 r2)"
        by (auto simp: dispatch_def Let_def)
      with videoBranch_run(1) [OF v] Inr oneTerminal_completed [OF _ same] show ?thesis by simp
    qed
  qed
  show "videoCalls r' = videoCalls r \<or>
         (\<exists>t. videoCalls r' = videoCalls r @ [videoParams w config anchors t])"
  proof (cases "cfg_protocolType config = Some ''IMAGE''")
    case True
    with d have "r' = closeStream (sendStatus ''Complete!'' 100 (imageBranch w config up ?sp trend ?r1))"
      by (auto simp: dispatch_def Let_def)
    then show ?thesis by (simp add: imageBranch_videoCalls)
  next
    case False
    obtain res2 r2 where v: "videoBranch w config anchors ?r1 = (res2, r2)"
      by (cases "videoBranch w config anchors ?r1") simp
    from videoBranch_calls [OF v] have c: "videoCalls r2 = videoCalls r \<or>
         (\<exists>t. videoCalls r2 = videoCalls r @ [videoParams w config anchors t])" by simp
    show ?thesis
    proof (cases res2)
      case (Inl message)
      with False v d have "r' = r2" by (auto simp: dispatch_def Let_def)
      with c show ?thesis by simp
    next
      case (Inr u)
      with False v d have "r' = closeStream (sendStatus ''Complete!'' 100 r2)"
        by (auto simp: dispatch_def Let_def)
      with c show ?thesis by simp
    qed
  qed
  assume pb: "progressBounded b r" and b: "b \<le> 15"
  then have p1: "progressBounded 15 ?r1" by (rule pb_status)
  show "(case res of Inl message \<Rightarrow> progressBounded 25 r' | Inr u \<Rightarrow> progressBounded 100 r')"
  proof (cases "cfg_protocolType config = Some ''IMAGE''")
    case True
    with d have "res = Inr ()"
      "r' = closeStream (sendStatus ''Complete!'' 100 (imageBranch w config up ?sp trend ?r1))"
      by (auto simp: dispatch_def Let_def)
    moreover from imageBranch_pb [OF p1] have
      "progressBounded 100 (sendStatus ''Complete!'' 100 (imageBranch w config up ?sp trend ?r1))"
      by (intro pb_status [where b = 95]) simp_all
    ultimately show ?thesis by simp
  next
    case False
    obtain res2 r2 where v: "videoBranch w config anchors ?r1 = (res2, r2)"
      by (cases "videoBranch w config anchors ?r1") simp
    show ?thesis
    proof (cases res2)
      case (Inl message)
      with False v d have "res = Inl message" "r' = r2" by (auto simp: dispatch_def Let_def)
      with videoBranch_run(2) [OF v p1] Inl show ?thesis by simp
    next
      case (Inr u)
      with False v d have "res = Inr ()" "r' = closeStream (sendStatus ''Complete!'' 100 r2)"
        by (auto simp: dispatch_def Let_def)
      moreover from videoBranch_run(2) [OF v p1] Inr have "progressBounded 95 r2" by simp
      then have "progressBounded 100 (sendStatus ''Complete!'' 100 r2)"
        by (rule pb_status) simp
      ultimately show ?thesis by simp
    qed
  qed
qed

lemma emptyRun_fields [simp]:
  "events emptyRun = []" "closed emptyRun = False"
  "imageCalls emptyRun = []" "videoCalls emptyRun = []"
  by (simp_all add: emptyRun_def)

lemma dispatch_from_open:
  assumes d: "dispatch w config formData up anchors trend r = (res, r')"
    and r: "filter isTerminal (events r) = []" "\<not> closed r" "progressBounded b r" "b \<le> 15"
      "imageCalls r = []" "videoCalls r = []"
  shows "(case res of Inl message \<Rightarrow> abortedRun r' | Inr u \<Rightarrow> endedRun r')"
proof (cases res)
  case (Inl message)
  with dispatch_run(1) [OF d] dispatch_run(2) [OF d r(3,4)] r show ?thesis
    by (simp add: thrownFrom_def abortedRun_def)
next
  case (Inr u)
  with dispatch_run(1) [OF d] dispatch_run(2) [OF d r(3,4)] r show ?thesis
    by (auto simp: completedFrom_def endedRun_def progressBounded_def)
qed

lemma expandAndDispatch_run:
  assumes p: "expandAndDispatch w config formData r = (res, r')"
    and r: "filter isTerminal (events r) = []" "\<not> closed r" "progressBounded 10 r"
      "imageCalls r = []" "videoCalls r = []"
  shows "(case res of Inl message \<Rightarrow> abortedRun r' | Inr u \<Rightarrow> endedRun r')"
proof (cases "cfg_creativeTrendType config = Some ''ai'' \<and>
          truthy (cfg_aiTrendDescription config)")
  case False
  with p have d: "dispatch w config formData (fst (collectFiles formData ([], [])))
      (snd (collectFiles formData ([], []))) None r = (res, r')"
    by (auto simp: expandAndDispatch_def Let_def)
  from r show ?thesis by (intro dispatch_from_open [OF d, of 10]) simp_all
next
  case ai: True
  define r3 where "r3 = sendStatus
      ''AI generating creative trend from your description...'' 12 r"
  from r have r3: "filter isTerminal (events r3) = []" "\<not> closed r3"
    "imageCalls r3 = []" "videoCalls r3 = []"
    by (simp_all add: r3_def)
  from r(3) have pb3: "progressBounded 12 r3"
    unfolding r3_def by (rule pb_status) simp
  show ?thesis
  proof (cases "generateCreativeTrendFromDescription w (the (cfg_aiTrendDescription config))")
    case (Inl message)
    with ai p have "res = Inl message" "r' = r3"
      by (auto simp: expandAndDispatch_def Let_def r3_def)
    moreover from pb3 have "progressBounded 25 r3" by (rule pb_mono) simp
    ultimately show ?thesis using r3 by (auto simp: abortedRun_def)
  next
    case (Inr t)
    with ai p
    have d: "dispatch w config formData (fst (collectFiles formData ([], [])))
      (snd (collectFiles formData ([], []))) (Some t) r3 = (res, r')"
      by (auto simp: expandAndDispatch_def Let_def r3_def)
    from r3 pb3 show ?thesis by (intro dispatch_from_open [OF d, of 12]) simp_all
  qed
qed

lemma postTry_run:
  assumes p: "postTry w req emptyRun = (res, r')"
  shows "(case res of Inl message \<Rightarrow> abortedRun r' | Inr u \<Rightarrow> endedRun r')"
proof (cases "rq_formData req")
  case (Inl message)
  with p have "res = Inl message" "r' = emptyRun" by (simp_all add: postTry_def)
  then show ?thesis by (simp add: abortedRun_def progressBounded_def)
next
  case form: (Inr formData)
  let ?configStr = "map_option formText (map_of formData ''config'')"
  show ?thesis
  proof (cases "truthy ?configStr")
    case False
    with form p have "res = Inr ()"
      "r' = closeStream (enqueue (ErrorEvent ''No configuration provided'') emptyRun)"
      by (simp_all add: postTry_def Let_def)
    then show ?thesis by (simp add: endedRun_def)
  next
    case cfg: True
    show ?thesis
    proof (cases "parseConfig w (the ?configStr)")
      case (Inl message)
      with form cfg p have "res = Inl message" "r' = emptyRun"
        by (simp_all add: postTry_def Let_def)
      then show ?thesis by (simp add: abortedRun_def progressBounded_def)
    next
      case parsed: (Inr parsed)
      define r2 where "r2 = sendStatus (processingMessage formData) 10
          (sendStatus ''Initializing AI generation...'' 5 emptyRun)"
      have r2: "filter isTerminal (events r2) = []" "\<not> closed r2" "progressBounded 10 r2"
        "imageCalls r2 = []" "videoCalls r2 = []"
        by (simp_all add: r2_def progressBounded_def)
      show ?thesis
      proof (cases parsed)
        case None
        with form cfg parsed p have "\<exists>message. res = Inl message" "r' = r2"
          by (auto simp: postTry_def Let_def r2_def)
        moreover from r2(3) have "progressBounded 25 r2" by (rule pb_mono) simp
        ultimately show ?thesis using r2 by (auto simp: abortedRun_def)
      next
        case config: (Some config)
        with form cfg parsed p
        have d: "expandAndDispatch w config formData r2 = (res, r')"
          by (auto simp: postTry_def Let_def r2_def)
        from d r2 show ?thesis by (rule expandAndDispatch_run)
      qed
    qed
  qed
qed

lemma POST_run:
  "closed (POST w req)" "length (filter isTerminal (events (POST w req))) = 1"
  "sorted (statusProgress (events (POST w req)))"
  "last (events (POST w req)) = StatusEvent ''Complete!'' 100 \<or>
   (\<exists>message. last (events (POST w req)) = ErrorEvent message) \<and>
   (\<forall>p \<in> set (statusProgress (events (POST w req))). p \<le> 25)"
proof -
  obtain res r' where p: "postTry w req emptyRun = (res, r')"
    by (cases "postTry w req emptyRun") simp
  have all: "closed (POST w req) \<and> length (filter isTerminal (events (POST w req))) = 1 \<and>
    sorted (statusProgress (events (POST w req))) \<and>
    (last (events (POST w req)) = StatusEvent ''Complete!'' 100 \<or>
     (\<exists>message. last (events (POST w req)) = ErrorEvent message) \<and>
     (\<forall>p \<in> set (statusProgress (events (POST w req))). p \<le> 25))"
  proof (cases res)
    case (Inl message)
    with p have post: "POST w req = closeStream (enqueue (ErrorEvent message) r')"
      by (simp add: POST_def)
    from postTry_run [OF p] Inl have "abortedRun r'" by simp
    then show ?thesis
      by (simp add: post abortedRun_def progressBounded_def)
  next
    case (Inr u)
    with p have post: "POST w req = r'" by (simp add: POST_def)
    from postTry_run [OF p] Inr have "endedRun r'" by simp
    then show ?thesis by (auto simp: post endedRun_def)
  qed
  from all show "closed (POST w req)" by simp
  from all show "length (filter isTerminal (events (POST w req))) = 1" by simp
  from all show "sorted (statusProgress (events (POST w req)))" by simp
  from all show "last (events (POST w req)) = StatusEvent ''Complete!'' 100 \<or>
   (\<exists>message. last (events (POST w req)) = ErrorEvent message) \<and>
   (\<forall>p \<in> set (statusProgress (events (POST w req))). p \<le> 25)" by simp
qed


lemma variantCountOf_nonzero: "variantCountOf config \<noteq> 0"
  by (simp add: variantCountOf_def split: option.splits)

lemma loopRan_calls:
  assumes pre: "preRan r r1" and ran: "loopRan w config up sp specs N 0 n r1 r2"
  shows "drop (length (imageCalls r)) (imageCalls r2) = map (unitParams config up sp specs) [0 ..< n]"
  using pre ran by (simp add: preRan_def loopRan_def)

lemma loopRan_ok:
  assumes ran: "loopRan w config up sp specs N 0 n r1 r2" and j: "Suc j < n"
  shows "\<exists>g. generateImage w j (unitParams config up sp specs j) = Inr g"
  using ran j by (simp add: loopRan_def)

lemma imageBranch_calls:
  fixes w config up sp trend r
  defines "r' \<equiv> imageBranch w config up sp trend r"
  defines "calls \<equiv> drop (length (imageCalls r)) (imageCalls r')"
  shows "(\<forall>k message. k < length calls \<and> generateImage w k (calls ! k) = Inl message \<longrightarrow>
           Suc k = length calls \<and> last (events r') = ErrorEvent message) \<and>
         (isImageResult (last (events r')) \<longleftrightarrow>
            int (length calls) = variantCountOf config \<and>
            (\<forall>k < length calls. \<exists>result. generateImage w k (calls ! k) = Inr result))"
proof (cases w config up sp trend r rule: imageBranch_cases)
  case (specsFail r1 message)
  then have "calls = []" "last (events r') = ErrorEvent message"
    by (simp_all add: calls_def r'_def preRan_def)
  then show ?thesis using variantCountOf_nonzero [of config] by simp
next
  case (loopFail r1 r2 specs n message)
  from loopRan_calls [OF loopFail(1,2)] loopFail(5)
  have calls: "calls = map (unitParams config up sp specs) [0 ..< n]"
    by (simp add: calls_def r'_def)
  from loopFail(5) have last: "last (events r') = ErrorEvent message" by (simp add: r'_def)
  have fail: "generateImage w (n - 1) (calls ! (n - 1)) = Inl message"
    using loopFail(3,4) by (simp add: calls)
  have first: "Suc k = n \<and> m = message"
    if "k < n" "generateImage w k (unitParams config up sp specs k) = Inl m" for k m
  proof (cases "Suc k < n")
    case True
    from loopRan_ok [OF loopFail(2) True] that(2) show ?thesis by simp
  next
    case False
    with that(1) have "k = n - 1" "Suc k = n" by simp_all
    with that(2) loopFail(4) show ?thesis by simp
  qed
  have "\<not> (\<forall>k < length calls. \<exists>result. generateImage w k (calls ! k) = Inr result)"
  proof
    assume "\<forall>k < length calls. \<exists>result. generateImage w k (calls ! k) = Inr result"
    with loopFail(3) have "\<exists>result. generateImage w (n - 1) (calls ! (n - 1)) = Inr result"
      by (simp add: calls)
    with fail show False by simp
  qed
  with last first show ?thesis by (auto simp: calls)
next
  case (noResult r1 r2 specs m90 m95 message)
  from loopRan_calls [OF noResult(1,2)] noResult(3)
  have "calls = []" "last (events r') = ErrorEvent message"
    by (simp_all add: calls_def r'_def)
  then show ?thesis using variantCountOf_nonzero [of config] by simp
next
  case (success r1 r2 specs n results m90 m95)
  from loopRan_calls [OF success(1,2)] success(6)
  have calls: "calls = map (unitParams config up sp specs) [0 ..< n]"
    by (simp add: calls_def r'_def)
  from success(6) have last: "isImageResult (last (events r'))" by (simp add: r'_def)
  have ok: "\<exists>g. generateImage w k (unitParams config up sp specs k) = Inr g" if "k < n" for k
  proof (cases "Suc k < n")
    case True
    from loopRan_ok [OF success(2) True] show ?thesis .
  next
    case False
    with that have "k = n - 1" by simp
    with success(5) show ?thesis by simp
  qed
  have none: "\<not> (k < n \<and> generateImage w k (unitParams config up sp specs k) = Inl m)" for k m
    using ok [of k] by auto
  from last success(4) ok none show ?thesis by (auto simp: calls)
qed

text \<open>
  C3. In the image dispatch, a throw of \<open>generateImage\<close> on a variant makes that call
  the last one and the error event, with the thrown message, the last event. The
  dispatch adds exactly one terminal event, as its last event; it is the result event
  exactly when all \<open>variantCount\<close> calls were made and returned. The stream of every
  request is closed and carries exactly one terminal event.
\<close>

theorem image_dispatch_terminal:
  "(let r' = imageBranch w config uploadedImages structuredPrompt aiGeneratedTrend r;
        calls = drop (length (imageCalls r)) (imageCalls r')
    in (\<forall>k message. k < length calls \<and> generateImage w k (calls ! k) = Inl message \<longrightarrow>
           Suc k = length calls \<and> last (events r') = ErrorEvent message) \<and>
       isTerminal (last (events r')) \<and>
       filter isTerminal (events r') = filter isTerminal (events r) @ [last (events r')] \<and>
       (isImageResult (last (events r')) \<longleftrightarrow>
          int (length calls) = variantCountOf config \<and>
          (\<forall>k < length calls. \<exists>result. generateImage w k (calls ! k) = Inr result)) \<and>
       closed r' = closed r) \<and>
   closed (POST w req) \<and> length (filter isTerminal (events (POST w req))) = 1"
proof -
  note one = imageBranch_oneTerminal
    [where r = r and w = w and config = config and up = uploadedImages and
       sp = structuredPrompt and trend = aiGeneratedTrend, unfolded oneTerminal_def]
  note calls = imageBranch_calls
    [where r = r and w = w and config = config and up = uploadedImages and
       sp = structuredPrompt and trend = aiGeneratedTrend]
  from one calls POST_run(1,2) [of w req] show ?thesis
    unfolding Let_def by blast
qed

theorem image_dispatch_terminal_witness:
  "length (imageCalls (imageBranch secondCallFails twoImagesConfig [] ''p'' None emptyRun)) = 2 \<and>
   generateImage secondCallFails 1
     (imageCalls (imageBranch secondCallFails twoImagesConfig [] ''p'' None emptyRun) ! 1) =
     Inl ''Image generation failed: 429 quota exceeded'' \<and>
   last (events (imageBranch secondCallFails twoImagesConfig [] ''p'' None emptyRun)) =
     ErrorEvent ''Image generation failed: 429 quota exceeded'' \<and>
   \<not> isImageResult (last (events (imageBranch secondCallFails twoImagesConfig [] ''p'' None emptyRun)))"
proof -
  let ?r' = "imageBranch secondCallFails twoImagesConfig [] ''p'' None emptyRun"
  have len: "length (imageCalls ?r') = 2" by code_simp
  have fail: "generateImage secondCallFails 1 (imageCalls ?r' ! 1) =
     Inl ''Image generation failed: 429 quota exceeded''"
    by code_simp
  have "\<forall>k message. k < length (imageCalls ?r') \<and>
          generateImage secondCallFails k (imageCalls ?r' ! k) = Inl message \<longrightarrow>
          Suc k = length (imageCalls ?r') \<and> last (events ?r') = ErrorEvent message"
    using image_dispatch_terminal
      [of secondCallFails twoImagesConfig "[]" "''p''" None emptyRun]
    by (simp add: Let_def)
  with len fail have "last (events ?r') = ErrorEvent ''Image generation failed: 429 quota exceeded''"
    by (metis one_less_numeral_iff semiring_norm(76))
  with len fail show ?thesis by simp
qed






text \<open>
  C4, as stated, fails. A request of creative trend type \<open>ai\<close> whose expansion
  call throws: the stream is three status events and the error event; no generation
  call is made.
\<close>

theorem trend_failure_aborts:
  "events (POST (readingWorld aiTrendText aiTrendConfig) (configRequest aiTrendText)) =
     [StatusEvent ''Initializing AI generation...'' 5,
      StatusEvent ''Processing 1 uploaded file(s)...'' 10,
      StatusEvent ''AI generating creative trend from your description...'' 12,
      ErrorEvent ''Failed to generate creative trend from description''] \<and>
   imageCalls (POST (readingWorld aiTrendText aiTrendConfig) (configRequest aiTrendText)) = [] \<and>
   videoCalls (POST (readingWorld aiTrendText aiTrendConfig) (configRequest aiTrendText)) = []"
  by code_simp

lemma expansion_throw_run:
  assumes "rq_formData req = Inr formData" and "map_of formData ''config'' = Some field"
    and "formText field \<noteq> []" and "parseConfig w (formText field) = Inr (Some config)"
    and "cfg_creativeTrendType config = Some ''ai''"
    and "cfg_aiTrendDescription config = Some description" and "description \<noteq> []"
    and "generateCreativeTrendFromDescription w description = Inl message"
  shows "POST w req =
     closeStream (enqueue (ErrorEvent message)
       (sendStatus ''AI generating creative trend from your description...'' 12
         (sendStatus (processingMessage formData) 10
           (sendStatus ''Initializing AI generation...'' 5 emptyRun))))"
proof -
  from assms(5-8) have "expandAndDispatch w config formData r =
      (Inl message, sendStatus ''AI generating creative trend from your description...'' 12 r)"
    for r
    by (simp add: expandAndDispatch_def Let_def truthy_def)
  with assms(1-4) show ?thesis
    by (simp add: POST_def postTry_def Let_def truthy_def)
qed

text \<open>
  C4, amended. With a client, a throw of the vendor call inside the trend
  expansion is replaced by the error \<open>Failed to generate creative trend from
  description\<close>. For a request of creative trend type \<open>ai\<close> with a description, a throw
  of the trend expansion ends the request: the stream is the status events of progress
  5, 10 and 12 and the error event with the thrown message, it is closed, and no image
  or video generation call is made.
\<close>

theorem trend_expansion_failure:
  "(getClient w = Inr client \<and> generateContent w (creativeTrendRequest description) = Inl e \<longrightarrow>
      generateCreativeTrendFromDescription w description =
        Inl ''Failed to generate creative trend from description'') \<and>
   (rq_formData req = Inr formData \<and> map_of formData ''config'' = Some field \<and>
    formText field \<noteq> [] \<and> parseConfig w (formText field) = Inr (Some config) \<and>
    cfg_creativeTrendType config = Some ''ai'' \<and>
    cfg_aiTrendDescription config = Some description \<and> description \<noteq> [] \<and>
    generateCreativeTrendFromDescription w description = Inl message \<longrightarrow>
      events (POST w req) =
        [StatusEvent ''Initializing AI generation...'' 5,
         StatusEvent (processingMessage formData) 10,
         StatusEvent ''AI generating creative trend from your description...'' 12,
         ErrorEvent message] \<and>
      closed (POST w req) \<and> imageCalls (POST w req) = [] \<and> videoCalls (POST w req) = [])"
proof (intro conjI impI)
  assume "getClient w = Inr client \<and> generateContent w (creativeTrendRequest description) = Inl e"
  then show "generateCreativeTrendFromDescription w description =
        Inl ''Failed to generate creative trend from description''"
    by (simp add: generateCreativeTrendFromDescription_def)
next
  assume a: "rq_formData req = Inr formData \<and> map_of formData ''config'' = Some field \<and>
    formText field \<noteq> [] \<and> parseConfig w (formText field) = Inr (Some config) \<and>
    cfg_creativeTrendType config = Some ''ai'' \<and>
    cfg_aiTrendDescription config = Some description \<and> description \<noteq> [] \<and>
    generateCreativeTrendFromDescription w description = Inl message"
  then have run: "POST w req =
     closeStream (enqueue (ErrorEvent message)
       (sendStatus ''AI generating creative trend from your description...'' 12
         (sendStatus (processingMessage formData) 10
           (sendStatus ''Initializing AI generation...'' 5 emptyRun))))"
    by (intro expansion_throw_run [where field = field and config = config and
          description = description]) simp_all
  show "events (POST w req) =
        [StatusEvent ''Initializing AI generation...'' 5,
         StatusEvent (processingMessage formData) 10,
         StatusEvent ''AI generating creative trend from your description...'' 12,
         ErrorEvent message]"
    by (simp add: run)
  show "closed (POST w req)" by (simp add: run)
  show "imageCalls (POST w req) = []" by (simp add: run)
  show "videoCalls (POST w req) = []" by (simp add: run)
qed

theorem trend_expansion_failure_witness:
  "generateContent (readingWorld aiTrendText aiTrendConfig) (creativeTrendRequest ''neon'') =
     Inl ''fetch failed'' \<and>
   generateCreativeTrendFromDescription (readingWorld aiTrendText aiTrendConfig) ''neon'' =
     Inl ''Failed to generate creative trend from description'' \<and>
   events (POST (readingWorld aiTrendText aiTrendConfig) aiTrendUpload) =
     [StatusEvent ''Initializing AI generation...'' 5,
      StatusEvent ''Processing 1 uploaded file(s)...'' 10,
      StatusEvent ''AI generating creative trend from your description...'' 12,
      ErrorEvent ''Failed to generate creative trend from description''] \<and>
   closed (POST (readingWorld aiTrendText aiTrendConfig) aiTrendUpload)"
proof -
  let ?w = "readingWorld aiTrendText aiTrendConfig"
  let ?formData = "[(''productImage_0'', FileValue [137, 80, 78, 71]),
                    (''config'', TextValue aiTrendText)]"
  note claim = trend_expansion_failure
    [of ?w "''key''" "''neon''" "''fetch failed''" aiTrendUpload ?formData
        "TextValue aiTrendText" aiTrendConfig
        "''Failed to generate creative trend from description''"]
  have client: "getClient ?w = Inr ''key''" by code_simp
  have vendor: "generateContent ?w (creativeTrendRequest ''neon'') = Inl ''fetch failed''"
    by (simp add: readingWorld_def offlineWorld_def)
  from claim client vendor
  have expansion: "generateCreativeTrendFromDescription ?w ''neon'' =
     Inl ''Failed to generate creative trend from description''"
    by blast
  have form: "rq_formData aiTrendUpload = Inr ?formData" by (simp add: aiTrendUpload_def)
  have field: "map_of ?formData ''config'' = Some (TextValue aiTrendText)" by simp
  have nonempty: "formText (TextValue aiTrendText) \<noteq> []" by code_simp
  have parsed: "parseConfig ?w (formText (TextValue aiTrendText)) = Inr (Some aiTrendConfig)"
    by (simp add: readingWorld_def formText_def)
  have config: "cfg_creativeTrendType aiTrendConfig = Some ''ai''"
    "cfg_aiTrendDescription aiTrendConfig = Some ''neon''" "''neon'' \<noteq> []"
    by (simp_all add: aiTrendConfig_def)
  have message: "processingMessage ?formData = ''Processing 1 uploaded file(s)...''"
    by code_simp
  from claim form field nonempty parsed config expansion
  have "events (POST ?w aiTrendUpload) =
        [StatusEvent ''Initializing AI generation...'' 5,
         StatusEvent (processingMessage ?formData) 10,
         StatusEvent ''AI generating creative trend from your description...'' 12,
         ErrorEvent ''Failed to generate creative trend from description''] \<and>
      closed (POST ?w aiTrendUpload)"
    by blast
  with vendor expansion message show ?thesis by simp
qed


section \<open>The duration of a video request\<close>

lemma sublist_skip: "sublist t ys \<Longrightarrow> sublist t (ps @ ys)"
  by (simp add: sublist_append)

lemma sublist_join: "s \<in> set xs \<Longrightarrow> sublist s (join sep xs)"
proof (induction sep xs rule: join.induct)
  case (1 sep)
  then show ?case by simp
next
  case (2 sep x)
  then show ?case by simp
next
  case (3 sep x y ys)
  show ?case
  proof (cases "s = x")
    case True
    have "sublist x ([] @ x @ (sep @ join sep (y # ys)))" by (rule sublist_appendI)
    with True show ?thesis by simp
  next
    case False
    with 3 have "sublist s (join sep (y # ys))" by simp
    then have "sublist s ((x @ sep) @ join sep (y # ys))" by (rule sublist_skip)
    then show ?thesis by simp
  qed
qed

lemma in_video_prompt:
  assumes "sublist t s" and "s \<in> set (videoSections presets params)"
  shows "sublist t (buildVideoStructuredPrompt presets params)"
proof -
  from assms(2) have "sublist s (buildVideoStructuredPrompt presets params)"
    unfolding buildVideoStructuredPrompt_def by (rule sublist_join)
  with assms(1) show ?thesis by (rule sublist_order.order.trans)
qed

lemma color_guidance:
  "sublist (''Apply these colors consistently throughout the entire '' @
            effectiveDuration params @ '' video sequence.'')
     (videoColorSection params)"
  unfolding videoColorSection_def
  by (rule sublist_skip, rule sublist_skip, rule sublist_skip,
      rule sublist_skip, rule sublist_skip, rule sublist_skip,
      rule sublist_skip, rule sublist_skip, rule prefix_imp_sublist) simp

lemma color_application:
  "sublist (''Color Application ('' @ effectiveDuration params @ '' format):'')
     (videoColorSection params)"
  unfolding videoColorSection_def
  by (rule sublist_skip, rule sublist_skip, rule sublist_skip,
      rule sublist_skip, rule sublist_skip, rule sublist_skip,
      rule sublist_skip, rule sublist_skip, rule sublist_skip,
      rule sublist_skip, rule sublist_skip, rule sublist_skip,
      rule sublist_skip, rule prefix_imp_sublist) simp

lemma duration_line: "sublist (durationNote params) (videoSpecSection params)"
  unfolding videoSpecSection_def
  by (rule sublist_skip, rule sublist_skip, rule sublist_skip,
      rule sublist_skip, rule prefix_imp_sublist) simp

lemma reference_notice:
  "sublist ''NOTE: Due to reference image constraints, this video is optimized for 8-second duration''
     (referenceText params)"
  unfolding referenceText_def
  by (rule sublist_skip, rule sublist_skip, rule sublist_skip,
      rule sublist_skip, rule sublist_skip, rule sublist_skip,
      rule sublist_skip, rule prefix_imp_sublist) simp

lemma request_hasReferenceImages:
  "hasReferenceImages (videoPromptParams config anchors trend) = (anchors \<noteq> [])"
  by (simp add: hasReferenceImages_def videoPromptParams_def referenceImagesOf_def)

lemma request_effectiveDuration:
  "effectiveDuration (videoPromptParams config anchors trend) = requestDuration config anchors"
  by (simp add: effectiveDuration_def request_hasReferenceImages requestDuration_def)
     (simp add: videoPromptParams_def)

lemma expandAndDispatch_videoCalls:
  assumes "expandAndDispatch w config formData r = (res, r')"
  shows "videoCalls r' = videoCalls r \<or>
         (\<exists>t. videoCalls r' =
                videoCalls r @ [videoParams w config (snd (collectFiles formData ([], []))) t])"
proof (cases "cfg_creativeTrendType config = Some ''ai'' \<and>
          truthy (cfg_aiTrendDescription config)")
  case False
  with assms have d: "dispatch w config formData (fst (collectFiles formData ([], [])))
      (snd (collectFiles formData ([], []))) None r = (res, r')"
    by (auto simp: expandAndDispatch_def Let_def)
  from dispatch_run(3) [OF d] show ?thesis .
next
  case ai: True
  let ?r3 = "sendStatus ''AI generating creative trend from your description...'' 12 r"
  show ?thesis
  proof (cases "generateCreativeTrendFromDescription w (the (cfg_aiTrendDescription config))")
    case (Inl message)
    with ai assms have "r' = ?r3" by (auto simp: expandAndDispatch_def Let_def)
    then show ?thesis by simp
  next
    case (Inr t)
    with ai assms
    have d: "dispatch w config formData (fst (collectFiles formData ([], [])))
      (snd (collectFiles formData ([], []))) (Some t) ?r3 = (res, r')"
      by (auto simp: expandAndDispatch_def Let_def)
    from dispatch_run(3) [OF d] show ?thesis by simp
  qed
qed

lemma postTry_videoCalls:
  assumes p: "postTry w req emptyRun = (res, r')"
  shows "videoCalls r' = [] \<or>
    (\<exists>formData field config t.
        rq_formData req = Inr formData \<and> map_of formData ''config'' = Some field \<and>
        parseConfig w (formText field) = Inr (Some config) \<and>
        videoCalls r' = [videoParams w config (snd (collectFiles formData ([], []))) t])"
proof (cases "rq_formData req")
  case (Inl message)
  with p have "r' = emptyRun" by (simp add: postTry_def)
  then show ?thesis by simp
next
  case form: (Inr formData)
  show ?thesis
  proof (cases "map_of formData ''config''")
    case None
    with form p have "r' = closeStream (enqueue (ErrorEvent ''No configuration provided'') emptyRun)"
      by (simp add: postTry_def Let_def truthy_def)
    then show ?thesis by simp
  next
    case field: (Some field)
    show ?thesis
    proof (cases "formText field = []")
      case True
      with form field p
      have "r' = closeStream (enqueue (ErrorEvent ''No configuration provided'') emptyRun)"
        by (simp add: postTry_def Let_def truthy_def)
      then show ?thesis by simp
    next
      case nonempty: False
      show ?thesis
      proof (cases "parseConfig w (formText field)")
        case (Inl message)
        with form field nonempty p have "r' = emptyRun"
          by (simp add: postTry_def Let_def truthy_def)
        then show ?thesis by simp
      next
        case parsed: (Inr parsed)
        let ?r2 = "sendStatus (processingMessage formData) 10
          (sendStatus ''Initializing AI generation...'' 5 emptyRun)"
        show ?thesis
        proof (cases parsed)
          case None
          with form field nonempty parsed p have "r' = ?r2"
            by (auto simp: postTry_def Let_def truthy_def)
          then show ?thesis by simp
        next
          case config: (Some config)
          with form field nonempty parsed p
          have d: "expandAndDispatch w config formData ?r2 = (res, r')"
            by (auto simp: postTry_def Let_def truthy_def)
          from expandAndDispatch_videoCalls [OF d]
          have "videoCalls r' = [] \<or>
            (\<exists>t. videoCalls r' = [videoParams w config (snd (collectFiles formData ([], []))) t])"
            by simp
          with form field parsed config show ?thesis by blast
        qed
      qed
    qed
  qed
qed

lemma POST_videoCalls:
  "videoCalls (POST w req) = [] \<or>
    (\<exists>formData field config t.
        rq_formData req = Inr formData \<and> map_of formData ''config'' = Some field \<and>
        parseConfig w (formText field) = Inr (Some config) \<and>
        videoCalls (POST w req) =
          [videoParams w config (snd (collectFiles formData ([], []))) t])"
proof -
  obtain res r' where p: "postTry w req emptyRun = (res, r')"
    by (cases "postTry w req emptyRun") simp
  have "videoCalls (POST w req) = videoCalls r'"
    using p by (cases res) (simp_all add: POST_def)
  with postTry_videoCalls [OF p] show ?thesis by simp
qed

text \<open>
  C1. The duration of a video request is \<open>8s\<close> when at least one anchor image is
  supplied, else the requested \<open>videoLength\<close>, \<open>6s\<close> by default. The prompt builder
  computes the same value from the parameters the endpoint gives it, and the endpoint
  passes it as the \<open>duration\<close> of its call to \<open>generateVideo\<close>, whose prompt is the
  built text. That text carries the value in the color-palette guidance (twice) and in
  the duration line of the video specifications (\<open>8 seconds\<close> with anchors), and with
  anchors the 8-second notice of the reference-images section. The video dispatch makes
  exactly that call, and a request makes no other video call.
\<close>

theorem duration_lock:
  "(let d = (if anchorImageBuffers \<noteq> [] then ''8s'' else orElse (cfg_videoLength config) ''6s'');
        params = videoParams w config anchorImageBuffers aiGeneratedVideoTrend
    in requestDuration config anchorImageBuffers = d \<and>
       effectiveDuration (videoPromptParams config anchorImageBuffers aiGeneratedVideoTrend) = d \<and>
       vg_duration params = Some d \<and>
       vg_prompt params =
         buildVideoStructuredPrompt (videoPresets w)
           (videoPromptParams config anchorImageBuffers aiGeneratedVideoTrend) \<and>
       sublist (''Apply these colors consistently throughout the entire '' @ d @
                '' video sequence.'') (vg_prompt params) \<and>
       sublist (''Color Application ('' @ d @ '' format):'') (vg_prompt params) \<and>
       sublist (if anchorImageBuffers \<noteq> []
                then ''Duration: 8 seconds (reference image constraint with Google Veo 3.1)''
                else ''Duration: '' @ d) (vg_prompt params) \<and>
       (anchorImageBuffers \<noteq> [] \<longrightarrow>
          sublist ''NOTE: Due to reference image constraints, this video is optimized for 8-second duration''
            (vg_prompt params)) \<and>
       videoCalls (videoDispatch w config anchorImageBuffers aiGeneratedVideoTrend r) =
         videoCalls r @ [params]) \<and>
   (videoCalls (POST w req) = [] \<or>
    (\<exists>formData field config' trend.
        rq_formData req = Inr formData \<and> map_of formData ''config'' = Some field \<and>
        parseConfig w (formText field) = Inr (Some config') \<and>
        videoCalls (POST w req) =
          [videoParams w config' (snd (collectFiles formData ([], []))) trend]))"
proof -
  let ?vp = "videoPromptParams config anchorImageBuffers aiGeneratedVideoTrend"
  let ?params = "videoParams w config anchorImageBuffers aiGeneratedVideoTrend"
  let ?d = "requestDuration config anchorImageBuffers"
  have d: "?d = (if anchorImageBuffers \<noteq> [] then ''8s'' else orElse (cfg_videoLength config) ''6s'')"
    by (simp add: requestDuration_def)
  have eff: "effectiveDuration ?vp = ?d" by (rule request_effectiveDuration)
  have dur: "vg_duration ?params = Some ?d" by (simp add: videoParams_def)
  have prompt: "vg_prompt ?params = buildVideoStructuredPrompt (videoPresets w) ?vp"
    by (simp add: videoParams_def)
  have color: "videoColorSection ?vp \<in> set (videoSections (videoPresets w) ?vp)"
    and spec: "videoSpecSection ?vp \<in> set (videoSections (videoPresets w) ?vp)"
    by (simp_all add: videoSections_def)
  from in_video_prompt [OF color_guidance color]
  have t1: "sublist (''Apply these colors consistently throughout the entire '' @ ?d @
                '' video sequence.'') (vg_prompt ?params)"
    by (simp only: prompt eff)
  from in_video_prompt [OF color_application color]
  have t2: "sublist (''Color Application ('' @ ?d @ '' format):'') (vg_prompt ?params)"
    by (simp only: prompt eff)
  from in_video_prompt [OF duration_line spec]
  have "sublist (durationNote ?vp) (vg_prompt ?params)" by (simp only: prompt)
  moreover have "durationNote ?vp =
      (if anchorImageBuffers \<noteq> []
       then ''Duration: 8 seconds (reference image constraint with Google Veo 3.1)''
       else ''Duration: '' @ ?d)"
    by (simp only: durationNote_def request_hasReferenceImages eff)
  ultimately have t3: "sublist (if anchorImageBuffers \<noteq> []
                then ''Duration: 8 seconds (reference image constraint with Google Veo 3.1)''
                else ''Duration: '' @ ?d) (vg_prompt ?params)"
    by (simp only:)
  have t4: "sublist ''NOTE: Due to reference image constraints, this video is optimized for 8-second duration''
            (vg_prompt ?params)" if "anchorImageBuffers \<noteq> []"
  proof -
    from that have "referenceText ?vp \<in> set (videoSections (videoPresets w) ?vp)"
      by (simp add: videoSections_def referenceSections_def request_hasReferenceImages)
    from in_video_prompt [OF reference_notice this] show ?thesis by (simp only: prompt)
  qed
  have calls: "videoCalls (videoDispatch w config anchorImageBuffers aiGeneratedVideoTrend r) =
         videoCalls r @ [?params]"
    using videoDispatch_calls [of w config anchorImageBuffers aiGeneratedVideoTrend r]
    by (rule conjunct1)
  have first: "requestDuration config anchorImageBuffers = ?d \<and>
       effectiveDuration ?vp = ?d \<and> vg_duration ?params = Some ?d \<and>
       vg_prompt ?params = buildVideoStructuredPrompt (videoPresets w) ?vp \<and>
       sublist (''Apply these colors consistently throughout the entire '' @ ?d @
                '' video sequence.'') (vg_prompt ?params) \<and>
       sublist (''Color Application ('' @ ?d @ '' format):'') (vg_prompt ?params) \<and>
       sublist (if anchorImageBuffers \<noteq> []
                then ''Duration: 8 seconds (reference image constraint with Google Veo 3.1)''
                else ''Duration: '' @ ?d) (vg_prompt ?params) \<and>
       (anchorImageBuffers \<noteq> [] \<longrightarrow>
          sublist ''NOTE: Due to reference image constraints, this video is optimized for 8-second duration''
            (vg_prompt ?params)) \<and>
       videoCalls (videoDispatch w config anchorImageBuffers aiGeneratedVideoTrend r) =
         videoCalls r @ [?params]"
    using eff dur prompt t1 t2 t3 t4 calls by blast
  show ?thesis
    unfolding Let_def d [symmetric]
    using first POST_videoCalls [of w req] by blast
qed

theorem duration_lock_witness:
  "cfg_videoLength tenSecondsConfig = Some ''10s'' \<and>
   vg_duration (videoParams offlineWorld tenSecondsConfig [[137, 80, 78, 71]] None) = Some ''8s'' \<and>
   sublist ''Duration: 8 seconds (reference image constraint with Google Veo 3.1)''
     (vg_prompt (videoParams offlineWorld tenSecondsConfig [[137, 80, 78, 71]] None)) \<and>
   sublist ''Color Application (8s format):''
     (vg_prompt (videoParams offlineWorld tenSecondsConfig [[137, 80, 78, 71]] None)) \<and>
   vg_duration (videoParams offlineWorld tenSecondsConfig [] None) = Some ''10s'' \<and>
   sublist ''Duration: 10s''
     (vg_prompt (videoParams offlineWorld tenSecondsConfig [] None))"
proof -
  have len: "cfg_videoLength tenSecondsConfig = Some ''10s''"
    by (simp add: tenSecondsConfig_def emptyConfig_def)
  note locked = duration_lock
    [of "[[137, 80, 78, 71]]" tenSecondsConfig offlineWorld None emptyRun
        "configRequest twoImagesText", unfolded Let_def, THEN conjunct1]
  note free = duration_lock
    [of "[]" tenSecondsConfig offlineWorld None emptyRun
        "configRequest twoImagesText", unfolded Let_def, THEN conjunct1]
  note c2 = conjunct2
  from locked [THEN c2, THEN c2, THEN conjunct1]
  have a1: "vg_duration (videoParams offlineWorld tenSecondsConfig [[137, 80, 78, 71]] None) = Some ''8s''"
    by simp
  from locked [THEN c2, THEN c2, THEN c2, THEN c2, THEN c2, THEN c2, THEN conjunct1]
  have a2: "sublist ''Duration: 8 seconds (reference image constraint with Google Veo 3.1)''
     (vg_prompt (videoParams offlineWorld tenSecondsConfig [[137, 80, 78, 71]] None))"
    by simp
  from locked [THEN c2, THEN c2, THEN c2, THEN c2, THEN c2, THEN conjunct1]
  have a3: "sublist ''Color Application (8s format):''
     (vg_prompt (videoParams offlineWorld tenSecondsConfig [[137, 80, 78, 71]] None))"
    by simp
  from free [THEN c2, THEN c2, THEN conjunct1] len
  have b1: "vg_duration (videoParams offlineWorld tenSecondsConfig [] None) = Some ''10s''"
    by (simp add: orElse_def)
  from free [THEN c2, THEN c2, THEN c2, THEN c2, THEN c2, THEN c2, THEN conjunct1] len
  have b2: "sublist ''Duration: 10s'' (vg_prompt (videoParams offlineWorld tenSecondsConfig [] None))"
    by (simp add: orElse_def)
  from len a1 a2 a3 b1 b2 show ?thesis by blast
qed

end
